theory Spec2Isabelle
  imports Main
begin

section \<open>Errors and results\<close>

text \<open>
  Every Python exception that the modelled code can raise is a value; a computation that
  may raise returns \<open>error + 'a\<close>, with \<open>Inl\<close> carrying the exception.
\<close>

datatype error =
    NameError string
  | UnboundLocalError string
  | AttributeError string
  | IndexError
  | TypeError
  | ValueError
  | RuntimeError
  | AssertionError
  | ZeroDivisionError

definition bind_res :: "error + 'a \<Rightarrow> ('a \<Rightarrow> error + 'b) \<Rightarrow> error + 'b" where
  "bind_res m f = (case m of Inl e \<Rightarrow> Inl e | Inr v \<Rightarrow> f v)"

section \<open>Tensors and the numeric substrate\<close>

text \<open>
  A volume tensor is five-dimensional: (batch, channel, depth, height, width). The
  voxel data is kept abstract (type \<open>'d\<close>): the arithmetic of the tensor library is a
  parameter of the model, its shape rules and its failures are written out.
\<close>

record shape5 =
  batch :: nat
  channels :: nat
  depth :: nat
  height :: nat
  width :: nat

record 'd tensor =
  shp :: shape5
  dat :: 'd

text \<open>
  What a Python expression evaluates to where the code hands values around untyped:
  a tensor, or a tuple of values.
\<close>

datatype 'd pyval = PTensor "'d tensor" | PTuple "'d pyval list"

text \<open>
  Module names as they appear in a \<open>state_dict\<close>: attribute names and
  \<open>ModuleList\<close> indices.
\<close>

datatype seg = Attr string | Idx nat

type_synonym path = "seg list"

record conv3d =
  c_name :: path
  c_in :: nat
  c_out :: nat
  kernel_size :: nat
  stride :: nat
  padding :: nat

record group_norm =
  g_name :: path
  num_groups :: nat
  num_channels :: nat

text \<open>
  The tensor library, as far as the code uses it. Each operation receives the parameter
  store \<open>'p\<close> (the weights, keyed by module name) where it has weights, and returns the
  data of its result; the shape of the result and the errors are fixed below.
\<close>

record ('d, 'p) torch =
  conv3d_op :: "'p \<Rightarrow> conv3d \<Rightarrow> 'd tensor \<Rightarrow> 'd"
  group_norm_op :: "'p \<Rightarrow> group_norm \<Rightarrow> 'd tensor \<Rightarrow> 'd"
  silu_op :: "'d tensor \<Rightarrow> 'd"
  add_op :: "'d tensor \<Rightarrow> 'd tensor \<Rightarrow> 'd"
  mul_op :: "'d tensor \<Rightarrow> 'd tensor \<Rightarrow> 'd"
  pad_op :: "'d tensor \<Rightarrow> 'd"
  interpolate_op :: "'d tensor \<Rightarrow> 'd"

subsection \<open>Shape rules of the library operations\<close>

text \<open>
  Output length of a convolution along one axis: \<open>floor((n + 2p - k) / s) + 1\<close>; the
  library refuses a kernel larger than the padded input, and a stride of zero.
\<close>

definition conv_out :: "nat \<Rightarrow> nat \<Rightarrow> nat \<Rightarrow> nat \<Rightarrow> nat" where
  "conv_out n k s p = (n + 2 * p - k) div s + 1"

definition conv_fits :: "conv3d \<Rightarrow> nat \<Rightarrow> bool" where
  "conv_fits c n = (kernel_size c \<le> n + 2 * padding c)"

definition Conv3d_forward ::
  "('d, 'p) torch \<Rightarrow> 'p \<Rightarrow> conv3d \<Rightarrow> 'd tensor \<Rightarrow> error + 'd tensor" where
  "Conv3d_forward T P c x =
     (let s = shp x in
      if channels s \<noteq> c_in c then Inl RuntimeError
      else if stride c = 0 then Inl RuntimeError
      else if \<not> (conv_fits c (depth s) \<and> conv_fits c (height s) \<and> conv_fits c (width s))
        then Inl RuntimeError
      else Inr \<lparr>shp = \<lparr>batch = batch s, channels = c_out c,
                     depth = conv_out (depth s) (kernel_size c) (stride c) (padding c),
                     height = conv_out (height s) (kernel_size c) (stride c) (padding c),
                     width = conv_out (width s) (kernel_size c) (stride c) (padding c)\<rparr>,
               dat = conv3d_op T P c x\<rparr>)"

definition GroupNorm_forward ::
  "('d, 'p) torch \<Rightarrow> 'p \<Rightarrow> group_norm \<Rightarrow> 'd tensor \<Rightarrow> error + 'd tensor" where
  "GroupNorm_forward T P g x =
     (if channels (shp x) \<noteq> num_channels g then Inl RuntimeError
      else Inr \<lparr>shp = shp x, dat = group_norm_op T P g x\<rparr>)"

definition silu :: "('d, 'p) torch \<Rightarrow> 'd tensor \<Rightarrow> 'd tensor" where
  "silu T x = \<lparr>shp = shp x, dat = silu_op T x\<rparr>"

text \<open>Broadcasting of one axis: equal lengths, or one of them is 1.\<close>

definition bcast :: "nat \<Rightarrow> nat \<Rightarrow> nat option" where
  "bcast a b = (if a = b then Some a else if a = 1 then Some b
                else if b = 1 then Some a else None)"

definition bcast_shape :: "shape5 \<Rightarrow> shape5 \<Rightarrow> shape5 option" where
  "bcast_shape s t =
     (case (bcast (batch s) (batch t), bcast (channels s) (channels t),
            bcast (depth s) (depth t), bcast (height s) (height t),
            bcast (width s) (width t)) of
        (Some b, Some c, Some d, Some h, Some w) \<Rightarrow>
          Some \<lparr>batch = b, channels = c, depth = d, height = h, width = w\<rparr>
      | _ \<Rightarrow> None)"

definition tensor_add ::
  "('d, 'p) torch \<Rightarrow> 'd tensor \<Rightarrow> 'd tensor \<Rightarrow> error + 'd tensor" where
  "tensor_add T x y =
     (case bcast_shape (shp x) (shp y) of
        None \<Rightarrow> Inl RuntimeError
      | Some s \<Rightarrow> Inr \<lparr>shp = s, dat = add_op T x y\<rparr>)"

definition tensor_mul ::
  "('d, 'p) torch \<Rightarrow> 'd tensor \<Rightarrow> 'd tensor \<Rightarrow> error + 'd tensor" where
  "tensor_mul T x y =
     (case bcast_shape (shp x) (shp y) of
        None \<Rightarrow> Inl RuntimeError
      | Some s \<Rightarrow> Inr \<lparr>shp = s, dat = mul_op T x y\<rparr>)"

text \<open>
  \<open>F.pad(x, (0, 1, 0, 1, 0, 1), mode="constant", value=0)\<close>: one zero after the end
  of each of the last three axes.
\<close>

definition pad_0_1 :: "('d, 'p) torch \<Rightarrow> 'd tensor \<Rightarrow> 'd tensor" where
  "pad_0_1 T x =
     \<lparr>shp = (shp x)\<lparr>depth := depth (shp x) + 1, height := height (shp x) + 1,
                     width := width (shp x) + 1\<rparr>,
      dat = pad_op T x\<rparr>"

text \<open>
  \<open>F.interpolate(x, scale_factor=2.0, mode="nearest")\<close>: each spatial axis of length
  \<open>n\<close> becomes \<open>floor(n * 2.0)\<close>; an empty input is refused.
\<close>

definition interpolate_2 :: "('d, 'p) torch \<Rightarrow> 'd tensor \<Rightarrow> error + 'd tensor" where
  "interpolate_2 T x =
     (let s = shp x in
      if channels s = 0 \<or> depth s = 0 \<or> height s = 0 \<or> width s = 0 then Inl RuntimeError
      else Inr \<lparr>shp = s\<lparr>depth := 2 * depth s, height := 2 * height s,
                          width := 2 * width s\<rparr>,
               dat = interpolate_op T x\<rparr>)"

section \<open>The modules of \<open>models/aekl_no_attention.py\<close>\<close>

subsection \<open>Library constructors\<close>

text \<open>
  \<open>nn.Conv3d(in_channels, out_channels, ...)\<close>: an \<open>out_channels\<close> of \<open>None\<close> is a
  \<open>TypeError\<close>.
\<close>

definition Conv3d_init ::
  "path \<Rightarrow> nat \<Rightarrow> nat option \<Rightarrow> nat \<Rightarrow> nat \<Rightarrow> nat \<Rightarrow> error + conv3d" where
  "Conv3d_init nm cin cout k s p =
     (case cout of
        None \<Rightarrow> Inl TypeError
      | Some co \<Rightarrow> Inr \<lparr>c_name = nm, c_in = cin, c_out = co, kernel_size = k,
                        stride = s, padding = p\<rparr>)"

text \<open>
  \<open>Normalize(in_channels)\<close> is \<open>nn.GroupNorm(num_groups=32, num_channels=in_channels,
  eps=1e-6, affine=True)\<close>, which raises \<open>ValueError\<close> unless the channels are
  divisible by the groups.
\<close>

definition Normalize :: "path \<Rightarrow> nat option \<Rightarrow> error + group_norm" where
  "Normalize nm in_channels =
     (case in_channels of
        None \<Rightarrow> Inl TypeError
      | Some c \<Rightarrow> if c mod 32 \<noteq> 0 then Inl ValueError
                  else Inr \<lparr>g_name = nm, num_groups = 32, num_channels = c\<rparr>)"

subsection \<open>Upsample and Downsample\<close>

record Upsample =
  up_conv :: conv3d

record Downsample =
  down_conv :: conv3d

definition Upsample_init :: "path \<Rightarrow> nat \<Rightarrow> error + Upsample" where
  "Upsample_init nm in_channels =
     bind_res (Conv3d_init (nm @ [Attr ''conv'']) in_channels (Some in_channels) 3 1 1)
       (\<lambda>c. Inr \<lparr>up_conv = c\<rparr>)"

definition Upsample_forward ::
  "('d, 'p) torch \<Rightarrow> 'p \<Rightarrow> Upsample \<Rightarrow> 'd tensor \<Rightarrow> error + 'd tensor" where
  "Upsample_forward T P u x =
     bind_res (interpolate_2 T x) (\<lambda>x1. Conv3d_forward T P (up_conv u) x1)"

definition Downsample_init :: "path \<Rightarrow> nat \<Rightarrow> error + Downsample" where
  "Downsample_init nm in_channels =
     bind_res (Conv3d_init (nm @ [Attr ''conv'']) in_channels (Some in_channels) 3 2 0)
       (\<lambda>c. Inr \<lparr>down_conv = c\<rparr>)"

definition Downsample_forward ::
  "('d, 'p) torch \<Rightarrow> 'p \<Rightarrow> Downsample \<Rightarrow> 'd tensor \<Rightarrow> error + 'd tensor" where
  "Downsample_forward T P d x = Conv3d_forward T P (down_conv d) (pad_0_1 T x)"

subsection \<open>ResBlock\<close>

record ResBlock =
  rb_in_channels :: nat
  rb_out_channels :: nat
  norm1 :: group_norm
  conv1 :: conv3d
  norm2 :: group_norm
  conv2 :: conv3d
  nin_shortcut :: "conv3d option"

text \<open>
  The constructor stores \<open>in_channels\<close> for a missing \<open>out_channels\<close>, but builds its
  layers from the argument as given, so that \<open>conv1\<close> raises for a missing
  \<open>out_channels\<close>; past \<open>conv1\<close> the argument and \<open>self.out_channels\<close> are the same
  number. The attribute \<open>nin_shortcut\<close> exists only when the channel counts differ.
\<close>

definition ResBlock_init :: "path \<Rightarrow> nat \<Rightarrow> nat option \<Rightarrow> error + ResBlock" where
  "ResBlock_init nm in_channels out_channels =
     (let self_out = (case out_channels of None \<Rightarrow> in_channels | Some oc \<Rightarrow> oc) in
      bind_res (Normalize (nm @ [Attr ''norm1'']) (Some in_channels)) (\<lambda>n1.
      bind_res (Conv3d_init (nm @ [Attr ''conv1'']) in_channels out_channels 3 1 1) (\<lambda>c1.
      bind_res (Normalize (nm @ [Attr ''norm2'']) out_channels) (\<lambda>n2.
      bind_res (Conv3d_init (nm @ [Attr ''conv2'']) self_out out_channels 3 1 1) (\<lambda>c2.
      bind_res (if in_channels \<noteq> self_out
                then bind_res (Conv3d_init (nm @ [Attr ''nin_shortcut''])
                                 in_channels out_channels 1 1 0) (\<lambda>c. Inr (Some c))
                else Inr None) (\<lambda>sc.
      Inr \<lparr>rb_in_channels = in_channels, rb_out_channels = self_out,
           norm1 = n1, conv1 = c1, norm2 = n2, conv2 = c2, nin_shortcut = sc\<rparr>))))))"

definition ResBlock_forward ::
  "('d, 'p) torch \<Rightarrow> 'p \<Rightarrow> ResBlock \<Rightarrow> 'd tensor \<Rightarrow> error + 'd tensor" where
  "ResBlock_forward T P rb x =
     bind_res (GroupNorm_forward T P (norm1 rb) x) (\<lambda>h1.
     bind_res (Conv3d_forward T P (conv1 rb) (silu T h1)) (\<lambda>h2.
     bind_res (GroupNorm_forward T P (norm2 rb) h2) (\<lambda>h3.
     bind_res (Conv3d_forward T P (conv2 rb) (silu T h3)) (\<lambda>h.
     bind_res (if rb_in_channels rb \<noteq> rb_out_channels rb
               then (case nin_shortcut rb of
                       None \<Rightarrow> Inl (AttributeError ''nin_shortcut'')
                     | Some sc \<Rightarrow> Conv3d_forward T P sc x)
               else Inr x) (\<lambda>x'.
     tensor_add T x' h)))))"

subsection \<open>Encoder and Decoder\<close>

datatype block =
    BConv conv3d
  | BNorm group_norm
  | BRes ResBlock
  | BDown Downsample
  | BUp Upsample

definition block_forward ::
  "('d, 'p) torch \<Rightarrow> 'p \<Rightarrow> block \<Rightarrow> 'd tensor \<Rightarrow> error + 'd tensor" where
  "block_forward T P b x =
     (case b of
        BConv c \<Rightarrow> Conv3d_forward T P c x
      | BNorm g \<Rightarrow> GroupNorm_forward T P g x
      | BRes r \<Rightarrow> ResBlock_forward T P r x
      | BDown d \<Rightarrow> Downsample_forward T P d x
      | BUp u \<Rightarrow> Upsample_forward T P u x)"

text \<open>\<open>for block in self.blocks: x = block(x)\<close>\<close>

fun run_blocks ::
  "('d, 'p) torch \<Rightarrow> 'p \<Rightarrow> block list \<Rightarrow> 'd tensor \<Rightarrow> error + 'd tensor" where
  "run_blocks T P [] x = Inr x"
| "run_blocks T P (b # bs) x = bind_res (block_forward T P b x) (run_blocks T P bs)"

text \<open>
  The inner loop of both constructors: \<open>num_res_blocks\<close> residual blocks, the first from
  \<open>block_in_ch\<close> to \<open>block_out_ch\<close>, the others from \<open>block_out_ch\<close> to itself. A block
  appended to the \<open>ModuleList\<close> is named by its index there. The loop returns the list
  and the final \<open>block_in_ch\<close>.
\<close>

fun res_loop ::
  "path \<Rightarrow> nat \<Rightarrow> nat \<Rightarrow> nat \<Rightarrow> block list \<Rightarrow> error + (block list \<times> nat)" where
  "res_loop nm 0 block_in_ch block_out_ch blocks = Inr (blocks, block_in_ch)"
| "res_loop nm (Suc k) block_in_ch block_out_ch blocks =
     bind_res (ResBlock_init (nm @ [Idx (length blocks)]) block_in_ch (Some block_out_ch))
       (\<lambda>rb. res_loop nm k block_out_ch block_out_ch (blocks @ [BRes rb]))"

record Encoder =
  enc_in_channels :: nat
  enc_n_channels :: nat
  enc_num_resolutions :: nat
  enc_num_res_blocks :: nat
  enc_blocks :: "block list"

text \<open>
  The outer loop of \<open>Encoder.__init__\<close> over \<open>i in range(num_resolutions)\<close>; the
  accumulator is the block list and \<open>block_in_ch\<close>, unbound before the first round.
\<close>

fun enc_levels ::
  "path \<Rightarrow> nat \<Rightarrow> nat list \<Rightarrow> nat list \<Rightarrow> nat \<Rightarrow> nat \<Rightarrow> nat list
    \<Rightarrow> block list \<times> nat option \<Rightarrow> error + (block list \<times> nat option)" where
  "enc_levels nm n_channels in_ch_mult ch_mult num_res_blocks num_resolutions [] acc = Inr acc"
| "enc_levels nm n_channels in_ch_mult ch_mult num_res_blocks num_resolutions (i # is) acc =
     bind_res (res_loop nm num_res_blocks (n_channels * in_ch_mult ! i)
                 (n_channels * ch_mult ! i) (fst acc)) (\<lambda>(blocks, block_in_ch).
     bind_res (if Suc i \<noteq> num_resolutions
               then bind_res (Downsample_init (nm @ [Idx (length blocks)]) block_in_ch)
                      (\<lambda>d. Inr (blocks @ [BDown d]))
               else Inr blocks) (\<lambda>blocks'.
     enc_levels nm n_channels in_ch_mult ch_mult num_res_blocks num_resolutions is
       (blocks', Some block_in_ch)))"

definition Encoder_init ::
  "path \<Rightarrow> nat \<Rightarrow> nat \<Rightarrow> nat \<Rightarrow> nat list \<Rightarrow> nat \<Rightarrow> error + Encoder" where
  "Encoder_init nm in_channels n_channels z_channels ch_mult num_res_blocks =
     (let bnm = nm @ [Attr ''blocks''];
          num_resolutions = length ch_mult;
          in_ch_mult = 1 # ch_mult in
      bind_res (Conv3d_init (bnm @ [Idx 0]) in_channels (Some n_channels) 3 1 1) (\<lambda>c0.
      bind_res (enc_levels bnm n_channels in_ch_mult ch_mult num_res_blocks num_resolutions
                  [0..<num_resolutions] ([BConv c0], None)) (\<lambda>(blocks, bic).
      case bic of
        None \<Rightarrow> Inl (UnboundLocalError ''block_in_ch'')
      | Some block_in_ch \<Rightarrow>
          bind_res (Normalize (bnm @ [Idx (length blocks)]) (Some block_in_ch)) (\<lambda>n.
          bind_res (Conv3d_init (bnm @ [Idx (Suc (length blocks))]) block_in_ch
                      (Some z_channels) 3 1 1) (\<lambda>c.
          Inr \<lparr>enc_in_channels = in_channels, enc_n_channels = n_channels,
               enc_num_resolutions = num_resolutions, enc_num_res_blocks = num_res_blocks,
               enc_blocks = blocks @ [BNorm n, BConv c]\<rparr>)))))"

definition Encoder_forward ::
  "('d, 'p) torch \<Rightarrow> 'p \<Rightarrow> Encoder \<Rightarrow> 'd tensor \<Rightarrow> error + 'd tensor" where
  "Encoder_forward T P e x = run_blocks T P (enc_blocks e) x"

record Decoder =
  dec_n_channels :: nat
  dec_z_channels :: nat
  dec_out_channels :: nat
  dec_ch_mult :: "nat list"
  dec_num_resolutions :: nat
  dec_num_res_blocks :: nat
  dec_blocks :: "block list"

text \<open>
  The outer loop of \<open>Decoder.__init__\<close> over \<open>i in reversed(range(num_resolutions))\<close>;
  here \<open>block_in_ch\<close> is bound before the loop.
\<close>

fun dec_levels ::
  "path \<Rightarrow> nat \<Rightarrow> nat list \<Rightarrow> nat \<Rightarrow> nat list
    \<Rightarrow> block list \<times> nat \<Rightarrow> error + (block list \<times> nat)" where
  "dec_levels nm n_channels ch_mult num_res_blocks [] acc = Inr acc"
| "dec_levels nm n_channels ch_mult num_res_blocks (i # is) acc =
     bind_res (res_loop nm num_res_blocks (snd acc) (n_channels * ch_mult ! i) (fst acc))
       (\<lambda>(blocks, block_in_ch).
     bind_res (if i \<noteq> 0
               then bind_res (Upsample_init (nm @ [Idx (length blocks)]) block_in_ch)
                      (\<lambda>u. Inr (blocks @ [BUp u]))
               else Inr blocks) (\<lambda>blocks'.
     dec_levels nm n_channels ch_mult num_res_blocks is (blocks', block_in_ch)))"

definition Decoder_init ::
  "path \<Rightarrow> nat \<Rightarrow> nat \<Rightarrow> nat \<Rightarrow> nat list \<Rightarrow> nat \<Rightarrow> error + Decoder" where
  "Decoder_init nm n_channels z_channels out_channels ch_mult num_res_blocks =
     (let bnm = nm @ [Attr ''blocks''];
          num_resolutions = length ch_mult in
      if ch_mult = [] then Inl IndexError
      else
        (let block_in_ch = n_channels * last ch_mult in
         bind_res (Conv3d_init (bnm @ [Idx 0]) z_channels (Some block_in_ch) 3 1 1) (\<lambda>c0.
         bind_res (dec_levels bnm n_channels ch_mult num_res_blocks
                     (rev [0..<num_resolutions]) ([BConv c0], block_in_ch))
           (\<lambda>(blocks, block_in_ch').
         bind_res (Normalize (bnm @ [Idx (length blocks)]) (Some block_in_ch')) (\<lambda>n.
         bind_res (Conv3d_init (bnm @ [Idx (Suc (length blocks))]) block_in_ch'
                     (Some out_channels) 3 1 1) (\<lambda>c.
         Inr \<lparr>dec_n_channels = n_channels, dec_z_channels = z_channels,
              dec_out_channels = out_channels, dec_ch_mult = ch_mult,
              dec_num_resolutions = num_resolutions, dec_num_res_blocks = num_res_blocks,
              dec_blocks = blocks @ [BNorm n, BConv c]\<rparr>))))))"

definition Decoder_forward ::
  "('d, 'p) torch \<Rightarrow> 'p \<Rightarrow> Decoder \<Rightarrow> 'd tensor \<Rightarrow> error + 'd tensor" where
  "Decoder_forward T P d x = run_blocks T P (dec_blocks d) x"

subsection \<open>AutoencoderKL\<close>

record AutoencoderKL =
  encoder :: Encoder
  decoder :: Decoder
  quant_conv_mu :: conv3d
  quant_conv_log_sigma :: conv3d
  post_quant_conv :: conv3d
  embed_dim :: nat

definition AutoencoderKL_init :: "nat \<Rightarrow> error + AutoencoderKL" where
  "AutoencoderKL_init ed =
     bind_res (Encoder_init [Attr ''encoder''] 1 64 3 [1, 2, 2, 2] 2) (\<lambda>enc.
     bind_res (Decoder_init [Attr ''decoder''] 64 3 1 [1, 2, 2, 2] 2) (\<lambda>dec.
     bind_res (Conv3d_init [Attr ''quant_conv_mu''] 3 (Some ed) 1 1 0) (\<lambda>qmu.
     bind_res (Conv3d_init [Attr ''quant_conv_log_sigma''] 3 (Some ed) 1 1 0) (\<lambda>qls.
     bind_res (Conv3d_init [Attr ''post_quant_conv''] ed (Some 3) 1 1 0) (\<lambda>pq.
     Inr \<lparr>encoder = enc, decoder = dec, quant_conv_mu = qmu,
          quant_conv_log_sigma = qls, post_quant_conv = pq, embed_dim = ed\<rparr>)))))"

text \<open>
  \<open>decode\<close> receives whatever Python value the caller passes; a convolution applied to a
  tuple is a \<open>TypeError\<close>.
\<close>

definition decode ::
  "('d, 'p) torch \<Rightarrow> 'p \<Rightarrow> AutoencoderKL \<Rightarrow> 'd pyval \<Rightarrow> error + 'd tensor" where
  "decode T P m z =
     (case z of
        PTuple vs \<Rightarrow> Inl TypeError
      | PTensor zt \<Rightarrow>
          bind_res (Conv3d_forward T P (post_quant_conv m) zt) (\<lambda>z1.
          Decoder_forward T P (decoder m) z1))"

text \<open>
  \<open>encode\<close>: \<open>h = self.encoder(x); z_mu = self.quant_conv_mu(h); return z_mu\<close>. The
  lines that computed \<open>z_sigma\<close> are commented out in the source.
\<close>

definition encode ::
  "('d, 'p) torch \<Rightarrow> 'p \<Rightarrow> AutoencoderKL \<Rightarrow> 'd tensor \<Rightarrow> error + 'd pyval" where
  "encode T P m x =
     bind_res (Encoder_forward T P (encoder m) x) (\<lambda>h.
     bind_res (Conv3d_forward T P (quant_conv_mu m) h) (\<lambda>z_mu.
     Inr (PTensor z_mu)))"

text \<open>
  \<open>sampling\<close>: \<open>eps = torch.randn_like(z_sigma); z_vae = z_mu + eps * z_sigma\<close>. The
  random generator is a state \<open>'r\<close>; \<open>randn_like\<close> draws the data of a tensor of the
  shape of its argument and advances the generator.
\<close>

definition randn_like :: "('r \<Rightarrow> shape5 \<Rightarrow> 'd \<times> 'r) \<Rightarrow> 'r \<Rightarrow> 'd tensor \<Rightarrow> 'd tensor \<times> 'r" where
  "randn_like randn g t = (case randn g (shp t) of (d, g') \<Rightarrow> (\<lparr>shp = shp t, dat = d\<rparr>, g'))"

definition sampling ::
  "('d, 'p) torch \<Rightarrow> ('r \<Rightarrow> shape5 \<Rightarrow> 'd \<times> 'r) \<Rightarrow> 'r \<Rightarrow> 'd tensor \<Rightarrow> 'd tensor
    \<Rightarrow> (error + 'd tensor) \<times> 'r" where
  "sampling T randn g z_mu z_sigma =
     (case randn_like randn g z_sigma of
        (eps, g') \<Rightarrow>
          (bind_res (tensor_mul T eps z_sigma) (\<lambda>es. tensor_add T z_mu es), g'))"

subsection \<open>OnlyEncoder\<close>

text \<open>
  Name resolution in a function body: the local scope, then the module's globals, then
  the builtins. A name bound to a number carries it; any other object is \<open>BOther\<close>.
\<close>

datatype binding = BInt nat | BOther

type_synonym scope = "(string \<times> binding) list"

definition load_name :: "scope \<Rightarrow> scope \<Rightarrow> scope \<Rightarrow> string \<Rightarrow> error + binding" where
  "load_name locals globals builtins x =
     (case map_of locals x of
        Some v \<Rightarrow> Inr v
      | None \<Rightarrow>
          (case map_of globals x of
             Some v \<Rightarrow> Inr v
           | None \<Rightarrow>
               (case map_of builtins x of
                  Some v \<Rightarrow> Inr v
                | None \<Rightarrow> Inl (NameError x))))"

text \<open>The names bound at the top level of \<open>models/aekl_no_attention.py\<close>.\<close>

definition module_globals :: scope where
  "module_globals =
     map (\<lambda>n. (n, BOther))
       [''Tuple'', ''torch'', ''nn'', ''F'', ''DiagonalGaussianDistribution'', ''swish'',
        ''Normalize'', ''Upsample'', ''Downsample'', ''ResBlock'', ''Encoder'', ''Decoder'',
        ''AutoencoderKL'', ''OnlyDecoder'', ''OnlyEncoder'']"

record OnlyEncoder =
  oe_encoder :: Encoder
  oe_quant_conv_mu :: conv3d

text \<open>
  \<open>OnlyEncoder.__init__(self)\<close> builds the encoder, then evaluates the arguments of
  \<open>torch.nn.Conv3d(3, embed_dim, 1)\<close>; its only local name is \<open>self\<close>.
\<close>

definition OnlyEncoder_init :: "scope \<Rightarrow> error + OnlyEncoder" where
  "OnlyEncoder_init builtins =
     bind_res (Encoder_init [Attr ''encoder''] 1 64 3 [1, 2, 2, 2] 2) (\<lambda>enc.
     bind_res (load_name [(''self'', BOther)] module_globals builtins ''embed_dim'') (\<lambda>v.
     bind_res (Conv3d_init [Attr ''quant_conv_mu''] 3
                 (case v of BInt n \<Rightarrow> Some n | BOther \<Rightarrow> None) 1 1 0) (\<lambda>qmu.
     Inr \<lparr>oe_encoder = enc, oe_quant_conv_mu = qmu\<rparr>)))"

section \<open>The training driver \<open>train_gradevae.py\<close>\<close>

subsection \<open>Configuration, library and state\<close>

record train_cfg =
  exp_dir :: string
  train_steps :: int
  log_every :: int
  ckpt_every :: int
  image_every :: int
  val_every :: int

text \<open>
  The library calls of the driver that compute on data: scalars (\<open>loss.item()\<close>) and
  image grids are data as well. \<open>autograd\<close> is \<open>accelerator.backward(loss)\<close>: it
  receives the loss as a function of the parameters, the parameters and the gradients
  accumulated so far. \<open>adamw_step\<close> is \<open>opt_vae.step()\<close>, from the optimizer's state
  (its moment estimates), the parameters and the gradients.
\<close>

record ('d, 'p, 'o) train_lib =
  mse_op :: "'d tensor \<Rightarrow> 'd tensor \<Rightarrow> 'd"
  autograd :: "('p \<Rightarrow> error + 'd) \<Rightarrow> 'p \<Rightarrow> 'p option \<Rightarrow> 'p option"
  adamw_step :: "'o \<Rightarrow> 'p \<Rightarrow> 'p option \<Rightarrow> 'p \<times> 'o"
  gather_mean :: "'d list \<Rightarrow> 'd"
  psnr_op :: "'d tensor \<Rightarrow> 'd tensor \<Rightarrow> 'd"
  rearrange_op :: "'d tensor \<Rightarrow> 'd"
  slice_op :: "nat \<Rightarrow> nat \<Rightarrow> 'd tensor \<Rightarrow> 'd"
  head_op :: "'d tensor \<Rightarrow> 'd"
  grids_op :: "'d tensor \<Rightarrow> 'd tensor \<Rightarrow> error + ('d \<times> 'd \<times> 'd)"

datatype 'd event = Scalar string 'd int | Image string 'd int

text \<open>
  Everything the loop of \<open>main\<close> mutates: the model's parameters, their gradients, the
  optimizer's state, the model's train/eval flag, the counters and loss buffers, the
  files written by \<open>torch.save\<close> (path and content) and the summary writer's events.
\<close>

record ('d, 'p, 'o) train_state =
  params :: 'p
  grads :: "'p option"
  opt_state :: 'o
  training :: bool
  global_step :: int
  step_loss :: "'d list"
  epoch :: nat
  epoch_loss :: "'d list"
  files :: "(string \<times> 'p) list"
  writer :: "'d event list"

subsection \<open>Small Python operations\<close>

text \<open>\<open>a % b\<close> on integers: the sign follows the divisor, zero divisor raises.\<close>

definition py_mod :: "int \<Rightarrow> int \<Rightarrow> error + int" where
  "py_mod a b = (if b = 0 then Inl ZeroDivisionError else Inr (a mod b))"

definition digit_char :: "nat \<Rightarrow> char" where
  "digit_char n = char_of (48 + n)"

fun dec_digits :: "nat \<Rightarrow> string" where
  "dec_digits n =
     (if n < 10 then [digit_char n] else dec_digits (n div 10) @ [digit_char (n mod 10)])"

text \<open>\<open>f"{i:07d}"\<close>: decimal, zero-padded to at least seven characters, sign first.\<close>

definition fmt_07d :: "int \<Rightarrow> string" where
  "fmt_07d i =
     (if i < 0
      then (let ds = dec_digits (nat (- i)) in CHR ''-'' # replicate (6 - length ds) CHR ''0'' @ ds)
      else (let ds = dec_digits (nat i) in replicate (7 - length ds) CHR ''0'' @ ds))"

text \<open>\<open>os.path.join(a, b)\<close> for a relative \<open>b\<close>.\<close>

definition path_join :: "string \<Rightarrow> string \<Rightarrow> string" where
  "path_join a b = (if a = [] then b else if last a = CHR ''/'' then a @ b else a @ ''/'' @ b)"

definition ckpt_path :: "train_cfg \<Rightarrow> int \<Rightarrow> string" where
  "ckpt_path cfg g = path_join (exp_dir cfg) ''checkpoints'' @ ''/'' @ fmt_07d g @ ''_gradvae.pt''"

text \<open>
  \<open>rearrange(t, "b h w z c -> b c h w z")\<close>: the loader's batch has its channel axis
  last, so read as a \<open>shape5\<close> its fields hold (b, h, w, z, c) in this order.
\<close>

definition rearrange ::
  "('d, 'p, 'o) train_lib \<Rightarrow> 'd tensor \<Rightarrow> 'd tensor" where
  "rearrange L t =
     \<lparr>shp = \<lparr>batch = batch (shp t), channels = width (shp t), depth = channels (shp t),
              height = depth (shp t), width = height (shp t)\<rparr>,
      dat = rearrange_op L t\<rparr>"

text \<open>\<open>t[:, :, :, :, a:b]\<close> for non-negative bounds: the slice is clamped to the axis.\<close>

definition slice_last ::
  "('d, 'p, 'o) train_lib \<Rightarrow> nat \<Rightarrow> nat \<Rightarrow> 'd tensor \<Rightarrow> 'd tensor" where
  "slice_last L a b t =
     \<lparr>shp = (shp t)\<lparr>width := min b (width (shp t)) - min a (width (shp t))\<rparr>,
      dat = slice_op L a b t\<rparr>"

text \<open>\<open>t[:1]\<close>\<close>

definition head_batch ::
  "('d, 'p, 'o) train_lib \<Rightarrow> 'd tensor \<Rightarrow> 'd tensor" where
  "head_batch L t = \<lparr>shp = (shp t)\<lparr>batch := min 1 (batch (shp t))\<rparr>, dat = head_op L t\<rparr>"

text \<open>
  \<open>torch.nn.functional.mse_loss(input, target)\<close>: operands of different shapes are
  broadcast, and refused when they cannot be.
\<close>

definition mse_loss ::
  "('d, 'p, 'o) train_lib \<Rightarrow> 'd tensor \<Rightarrow> 'd tensor \<Rightarrow> error + 'd" where
  "mse_loss L x y =
     (case bcast_shape (shp x) (shp y) of
        None \<Rightarrow> Inl RuntimeError
      | Some s \<Rightarrow> Inr (mse_op L x y))"

text \<open>
  \<open>calculate_psnr_pt(img, img2, crop_border=0)\<close> as the driver calls it: the assertion
  on the shapes, then the numeric part.
\<close>

definition calculate_psnr_pt ::
  "('d, 'p, 'o) train_lib \<Rightarrow> 'd tensor \<Rightarrow> 'd tensor \<Rightarrow> error + 'd" where
  "calculate_psnr_pt L img img2 =
     (if shp img \<noteq> shp img2 then Inl AssertionError else Inr (psnr_op L img img2))"

subsection \<open>One training step\<close>

text \<open>
  The driver reaches the model as \<open>vae.module\<close>, through the wrapper that a distributed
  run puts around it; the model here is the wrapped \<open>AutoencoderKL\<close>. Progress bars and
  barriers (\<open>wait_for_everyone\<close>) change none of the state below and are left out.

  The loss of a step, as a function of the parameters:
  \<open>mse_loss(grad, decode(encode(grad)))\<close>.
\<close>

definition reconstruct ::
  "('d, 'p) torch \<Rightarrow> AutoencoderKL \<Rightarrow> 'd tensor \<Rightarrow> 'p \<Rightarrow> error + 'd tensor" where
  "reconstruct T vae grad P =
     bind_res (encode T P vae grad) (\<lambda>z_gt. decode T P vae z_gt)"

definition step_loss_fn ::
  "('d, 'p) torch \<Rightarrow> ('d, 'p, 'o) train_lib \<Rightarrow> AutoencoderKL \<Rightarrow> 'd tensor \<Rightarrow> 'p
    \<Rightarrow> error + 'd" where
  "step_loss_fn T L vae grad P =
     bind_res (reconstruct T vae grad P) (\<lambda>z_pred. mse_loss L grad z_pred)"

definition zero_grad :: "('d, 'p, 'o) train_state \<Rightarrow> ('d, 'p, 'o) train_state" where
  "zero_grad s = s\<lparr>grads := None\<rparr>"

definition backward ::
  "('d, 'p, 'o) train_lib \<Rightarrow> ('p \<Rightarrow> error + 'd) \<Rightarrow> ('d, 'p, 'o) train_state
    \<Rightarrow> ('d, 'p, 'o) train_state" where
  "backward L loss s = s\<lparr>grads := autograd L loss (params s) (grads s)\<rparr>"

definition opt_step ::
  "('d, 'p, 'o) train_lib \<Rightarrow> ('d, 'p, 'o) train_state \<Rightarrow> ('d, 'p, 'o) train_state" where
  "opt_step L s =
     (case adamw_step L (opt_state s) (params s) (grads s) of
        (P', o') \<Rightarrow> s\<lparr>params := P', opt_state := o'\<rparr>)"

text \<open>
  Lines 273 to 291: the batch is rearranged and cropped to 128 slices from
  \<open>random_start\<close>, encoded, decoded and compared with itself; then \<open>zero_grad\<close>,
  \<open>backward\<close> and \<open>step\<close>. The result is the cropped batch, the reconstruction, the loss
  and the new state.
\<close>

definition forward_backward ::
  "('d, 'p) torch \<Rightarrow> ('d, 'p, 'o) train_lib \<Rightarrow> AutoencoderKL \<Rightarrow> 'd tensor \<Rightarrow> nat
    \<Rightarrow> ('d, 'p, 'o) train_state
    \<Rightarrow> error + ('d tensor \<times> 'd tensor \<times> 'd \<times> ('d, 'p, 'o) train_state)" where
  "forward_backward T L vae batch0 random_start s =
     (let relative_end = random_start + 128;
          grad = slice_last L random_start relative_end (rearrange L batch0) in
      bind_res (encode T (params s) vae grad) (\<lambda>z_gt.
      bind_res (decode T (params s) vae z_gt) (\<lambda>z_pred.
      bind_res (mse_loss L grad z_pred) (\<lambda>loss.
      Inr (grad, z_pred, loss,
           opt_step L (backward L (step_loss_fn T L vae grad) (zero_grad s)))))))"

text \<open>Lines 295 to 297.\<close>

definition count_step ::
  "'d \<Rightarrow> ('d, 'p, 'o) train_state \<Rightarrow> ('d, 'p, 'o) train_state" where
  "count_step loss s =
     s\<lparr>global_step := global_step s + 1, step_loss := step_loss s @ [loss],
       epoch_loss := epoch_loss s @ [loss]\<rparr>"

text \<open>Lines 302 to 307.\<close>

definition log_loss ::
  "('d, 'p, 'o) train_lib \<Rightarrow> train_cfg \<Rightarrow> bool \<Rightarrow> ('d, 'p, 'o) train_state
    \<Rightarrow> error + ('d, 'p, 'o) train_state" where
  "log_loss L cfg is_local_main_process s =
     bind_res (py_mod (global_step s) (log_every cfg)) (\<lambda>r.
     if r = 0 \<and> global_step s > 0
     then (let avg_loss = gather_mean L (step_loss s);
               s1 = s\<lparr>step_loss := []\<rparr> in
           Inr (if is_local_main_process
                then s1\<lparr>writer := writer s1
                          @ [Scalar ''loss/loss_simple_step'' avg_loss (global_step s1)]\<rparr>
                else s1))
     else Inr s)"

text \<open>Lines 310 to 314.\<close>

definition save_checkpoint ::
  "train_cfg \<Rightarrow> bool \<Rightarrow> ('d, 'p, 'o) train_state \<Rightarrow> error + ('d, 'p, 'o) train_state" where
  "save_checkpoint cfg is_local_main_process s =
     bind_res (py_mod (global_step s) (ckpt_every cfg)) (\<lambda>r.
     if r = 0 \<and> global_step s > 0
     then (if is_local_main_process
           then (let checkpoint = params s;
                     ckpt = ckpt_path cfg (global_step s) in
                 Inr (s\<lparr>files := files s @ [(ckpt, checkpoint)]\<rparr>))
           else Inr s)
     else Inr s)"

text \<open>
  The three \<open>writer.add_image\<close> calls on the middle slices of a prediction and its
  ground truth.
\<close>

definition add_images ::
  "('d, 'p, 'o) train_lib \<Rightarrow> string \<Rightarrow> 'd tensor \<Rightarrow> 'd tensor \<Rightarrow> ('d, 'p, 'o) train_state
    \<Rightarrow> error + ('d, 'p, 'o) train_state" where
  "add_images L tag pred gt s =
     bind_res (grids_op L pred gt) (\<lambda>(x, y, z).
     Inr (s\<lparr>writer := writer s
              @ [Image (tag @ ''/x'') x (global_step s), Image (tag @ ''/y'') y (global_step s),
                 Image (tag @ ''/z'') z (global_step s)]\<rparr>))"

text \<open>Lines 317 to 356.\<close>

definition log_images ::
  "('d, 'p, 'o) train_lib \<Rightarrow> train_cfg \<Rightarrow> bool \<Rightarrow> 'd tensor \<Rightarrow> 'd tensor
    \<Rightarrow> ('d, 'p, 'o) train_state \<Rightarrow> error + ('d, 'p, 'o) train_state" where
  "log_images L cfg is_local_main_process grad z_pred s =
     bind_res (py_mod (global_step s) (image_every cfg)) (\<lambda>r.
     if r = 0 \<or> global_step s = 1
     then (let log_pred = head_batch L z_pred;
               log_gt = head_batch L grad;
               s1 = s\<lparr>training := False\<rparr> in
           bind_res (if is_local_main_process then add_images L ''slice'' log_pred log_gt s1
                     else Inr s1) (\<lambda>s2.
           Inr (s2\<lparr>training := True\<rparr>)))
     else Inr s)"

text \<open>
  Lines 368 to 429, the body of the validation loop, run over the batches of the
  validation loader; the accumulators are the state and the lists \<open>val_loss\<close> and
  \<open>val_psnr\<close>.
\<close>

fun val_batches ::
  "('d, 'p) torch \<Rightarrow> ('d, 'p, 'o) train_lib \<Rightarrow> bool \<Rightarrow> AutoencoderKL \<Rightarrow> 'd tensor list
    \<Rightarrow> ('d, 'p, 'o) train_state \<times> 'd list \<times> 'd list
    \<Rightarrow> error + (('d, 'p, 'o) train_state \<times> 'd list \<times> 'd list)" where
  "val_batches T L is_local_main_process vae [] acc = Inr acc"
| "val_batches T L is_local_main_process vae (val_grad # rest) acc =
     (case acc of (s, val_loss, val_psnr) \<Rightarrow>
      (let val_gt = slice_last L 16 144 (rearrange L val_grad) in
       bind_res (encode T (params s) vae val_gt) (\<lambda>z_gt.
       bind_res (decode T (params s) vae z_gt) (\<lambda>z_pred.
       bind_res (mse_loss L val_gt z_pred) (\<lambda>loss.
       bind_res (calculate_psnr_pt L z_pred val_gt) (\<lambda>psnr.
       bind_res (if is_local_main_process then add_images L ''val'' z_pred val_gt s
                 else Inr s) (\<lambda>s1.
       val_batches T L is_local_main_process vae rest
         (s1\<lparr>training := True\<rparr>, val_loss @ [loss], val_psnr @ [psnr]))))))))"

text \<open>Lines 359 to 442.\<close>

definition validate ::
  "('d, 'p) torch \<Rightarrow> ('d, 'p, 'o) train_lib \<Rightarrow> train_cfg \<Rightarrow> bool \<Rightarrow> AutoencoderKL
    \<Rightarrow> 'd tensor list \<Rightarrow> ('d, 'p, 'o) train_state \<Rightarrow> error + ('d, 'p, 'o) train_state" where
  "validate T L cfg is_local_main_process vae val_loader s =
     bind_res (py_mod (global_step s) (val_every cfg)) (\<lambda>r.
     if r = 0 \<and> global_step s > 0
     then bind_res (val_batches T L is_local_main_process vae val_loader
                      (s\<lparr>training := False\<rparr>, [], [])) (\<lambda>(s1, val_loss, val_psnr).
          (let avg_val_loss = gather_mean L val_loss;
               avg_val_psnr = gather_mean L val_psnr;
               s2 = (if is_local_main_process
                     then s1\<lparr>writer := writer s1
                               @ [Scalar ''val/loss'' avg_val_loss (global_step s1),
                                  Scalar ''val/psnr'' avg_val_psnr (global_step s1)]\<rparr>
                     else s1) in
           Inr (s2\<lparr>training := True\<rparr>)))
     else Inr s)"

text \<open>Lines 295 to 442: everything of an iteration that follows the optimizer's step.\<close>

definition after_step ::
  "('d, 'p) torch \<Rightarrow> ('d, 'p, 'o) train_lib \<Rightarrow> train_cfg \<Rightarrow> bool \<Rightarrow> AutoencoderKL
    \<Rightarrow> 'd tensor list \<Rightarrow> 'd tensor \<Rightarrow> 'd tensor \<Rightarrow> 'd \<Rightarrow> ('d, 'p, 'o) train_state
    \<Rightarrow> error + ('d, 'p, 'o) train_state" where
  "after_step T L cfg is_local_main_process vae val_loader grad z_pred loss s =
     bind_res (log_loss L cfg is_local_main_process (count_step loss s)) (\<lambda>s1.
     bind_res (save_checkpoint cfg is_local_main_process s1) (\<lambda>s2.
     bind_res (log_images L cfg is_local_main_process grad z_pred s2) (\<lambda>s3.
     validate T L cfg is_local_main_process vae val_loader s3)))"

text \<open>The body of \<open>for grad in loader\<close>, up to the test for \<open>break\<close>.\<close>

definition train_iter ::
  "('d, 'p) torch \<Rightarrow> ('d, 'p, 'o) train_lib \<Rightarrow> train_cfg \<Rightarrow> bool \<Rightarrow> AutoencoderKL
    \<Rightarrow> 'd tensor list \<Rightarrow> 'd tensor \<times> nat \<Rightarrow> ('d, 'p, 'o) train_state
    \<Rightarrow> error + ('d, 'p, 'o) train_state" where
  "train_iter T L cfg is_local_main_process vae val_loader b s =
     bind_res (forward_backward T L vae (fst b) (snd b) s) (\<lambda>(grad, z_pred, loss, s1).
     after_step T L cfg is_local_main_process vae val_loader grad z_pred loss s1)"

subsection \<open>The loops\<close>


text \<open>Lines 449 to 454, after the inner loop.\<close>

definition end_epoch ::
  "('d, 'p, 'o) train_lib \<Rightarrow> bool \<Rightarrow> ('d, 'p, 'o) train_state \<Rightarrow> ('d, 'p, 'o) train_state" where
  "end_epoch L is_local_main_process s =
     (let avg_epoch_loss = gather_mean L (epoch_loss s);
          s1 = s\<lparr>epoch := epoch s + 1, epoch_loss := []\<rparr> in
      if is_local_main_process
      then s1\<lparr>writer := writer s1
                @ [Scalar ''loss/loss_simple_epoch'' avg_epoch_loss (global_step s1)]\<rparr>
      else s1)"


text \<open>The state in which \<open>main\<close> enters the loop (lines 253 to 264).\<close>

definition init_state :: "'p \<Rightarrow> 'o \<Rightarrow> ('d, 'p, 'o) train_state" where
  "init_state P opt =
     \<lparr>params = P, grads = None, opt_state = opt, training = True, global_step = 0,
      step_loss = [], epoch = 0, epoch_loss = [], files = [], writer = []\<rparr>"

section \<open>Shape signatures\<close>

text \<open>
  A signature summarises what a block does to the shape of a non-empty volume: it maps
  the channels and keeps the spatial size, or halves, or doubles every spatial axis. A
  block has a signature only if its layers have the kernel, stride and padding that make
  it so; the lemmas below show that a block with a signature behaves accordingly.
\<close>

datatype sig = Same nat nat | Half nat | Double nat

definition conv_sig :: "conv3d \<Rightarrow> sig option" where
  "conv_sig c =
     (if stride c = 1 \<and> (kernel_size c = 3 \<and> padding c = 1 \<or> kernel_size c = 1 \<and> padding c = 0)
      then Some (Same (c_in c) (c_out c)) else None)"

definition res_sig :: "ResBlock \<Rightarrow> sig option" where
  "res_sig rb =
     (let i = rb_in_channels rb; oc = rb_out_channels rb in
      if num_channels (norm1 rb) = i \<and> conv_sig (conv1 rb) = Some (Same i oc)
         \<and> num_channels (norm2 rb) = oc \<and> conv_sig (conv2 rb) = Some (Same oc oc)
         \<and> (i \<noteq> oc \<longrightarrow> (case nin_shortcut rb of None \<Rightarrow> False
                                | Some sc \<Rightarrow> conv_sig sc = Some (Same i oc)))
      then Some (Same i oc) else None)"

definition block_sig :: "block \<Rightarrow> sig option" where
  "block_sig b =
     (case b of
        BConv c \<Rightarrow> conv_sig c
      | BNorm g \<Rightarrow> Some (Same (num_channels g) (num_channels g))
      | BRes rb \<Rightarrow> res_sig rb
      | BDown d \<Rightarrow>
          (let c = down_conv d in
           if kernel_size c = 3 \<and> stride c = 2 \<and> padding c = 0 \<and> c_in c = c_out c
           then Some (Half (c_in c)) else None)
      | BUp u \<Rightarrow>
          (let c = up_conv u in
           if conv_sig c = Some (Same (c_in c) (c_in c)) then Some (Double (c_in c)) else None))"

definition sig_apply :: "sig \<Rightarrow> shape5 \<Rightarrow> shape5 option" where
  "sig_apply g s =
     (if depth s = 0 \<or> height s = 0 \<or> width s = 0 then None
      else case g of
        Same i oc \<Rightarrow> if channels s = i then Some (s\<lparr>channels := oc\<rparr>) else None
      | Half c \<Rightarrow>
          if channels s = c \<and> even (depth s) \<and> even (height s) \<and> even (width s)
          then Some (s\<lparr>depth := depth s div 2, height := height s div 2,
                        width := width s div 2\<rparr>)
          else None
      | Double c \<Rightarrow>
          if channels s = c \<and> 0 < c
          then Some (s\<lparr>depth := 2 * depth s, height := 2 * height s, width := 2 * width s\<rparr>)
          else None)"

fun sigs_apply :: "sig list \<Rightarrow> shape5 \<Rightarrow> shape5 option" where
  "sigs_apply [] s = Some s"
| "sigs_apply (g # gs) s = (case sig_apply g s of None \<Rightarrow> None | Some s1 \<Rightarrow> sigs_apply gs s1)"

text \<open>The signatures of the encoder's and the decoder's fourteen blocks.\<close>

definition enc_sigs :: "sig list" where
  "enc_sigs = [Same 1 64, Same 64 64, Same 64 64, Half 64, Same 64 128, Same 128 128, Half 128,
     Same 128 128, Same 128 128, Half 128, Same 128 128, Same 128 128, Same 128 128, Same 128 3]"

definition dec_sigs :: "sig list" where
  "dec_sigs = [Same 3 128, Same 128 128, Same 128 128, Double 128, Same 128 128, Same 128 128,
     Double 128, Same 128 128, Same 128 128, Double 128, Same 128 64, Same 64 64, Same 64 64,
     Same 64 1]"

text \<open>
  The volumes the autoencoder reconstructs in their own shape: one channel, non-empty,
  every spatial dimension divisible by 8.
\<close>

definition volume_ok :: "shape5 \<Rightarrow> bool" where
  "volume_ok s = (channels s = 1 \<and> 0 < depth s \<and> 0 < height s \<and> 0 < width s
     \<and> 8 dvd depth s \<and> 8 dvd height s \<and> 8 dvd width s)"


section \<open>Concrete inputs\<close>

text \<open>
  A small instance of the libraries, over numbers, on which the model can be run: the
  optimizer's step adds one to the parameters and to its own state.
\<close>

definition nat_torch :: "(nat, nat) torch" where
  "nat_torch =
     \<lparr>conv3d_op = (\<lambda>P c x. P + dat x), group_norm_op = (\<lambda>P g x. dat x),
      silu_op = dat, add_op = (\<lambda>x y. dat x + dat y), mul_op = (\<lambda>x y. dat x * dat y),
      pad_op = dat, interpolate_op = dat\<rparr>"

definition nat_lib :: "(nat, nat, nat) train_lib" where
  "nat_lib =
     \<lparr>mse_op = (\<lambda>x y. (dat x - dat y) + (dat y - dat x)),
      autograd = (\<lambda>loss P g. Some 1),
      adamw_step = (\<lambda>opt P g. (P + 1, opt + 1)),
      gather_mean = (\<lambda>xs. case xs of [] \<Rightarrow> 0 | x # _ \<Rightarrow> x),
      psnr_op = (\<lambda>x y. 0),
      rearrange_op = dat, slice_op = (\<lambda>a b. dat), head_op = dat,
      grids_op = (\<lambda>x y. Inr (dat x, dat y, 0))\<rparr>"

definition vae0 :: AutoencoderKL where
  "vae0 = projr (AutoencoderKL_init 3)"

definition volume0 :: "nat tensor" where
  "volume0 = \<lparr>shp = \<lparr>batch = 2, channels = 1, depth = 8, height = 16, width = 24\<rparr>, dat = 5\<rparr>"

definition rb0 :: ResBlock where
  "rb0 = projr (ResBlock_init [Idx 4] 64 (Some 128))"

definition volume64 :: "nat tensor" where
  "volume64 = \<lparr>shp = \<lparr>batch = 1, channels = 64, depth = 2, height = 2, width = 2\<rparr>, dat = 3\<rparr>"

definition counter_randn :: "nat \<Rightarrow> shape5 \<Rightarrow> nat \<times> nat" where
  "counter_randn g s = (g, g + 1)"

text \<open>
  A run of two steps with one batch in each epoch, a checkpoint every second step, and
  two states of the loop at step 2 that differ in the optimizer's state and in the loss
  buffers only.
\<close>

definition cfg0 :: train_cfg where
  "cfg0 = \<lparr>exp_dir = ''exp'', train_steps = 2, log_every = 1, ckpt_every = 2, image_every = 1,
            val_every = 2\<rparr>"

definition batch0 :: "nat tensor" where
  "batch0 = \<lparr>shp = \<lparr>batch = 2, channels = 8, depth = 16, height = 24, width = 1\<rparr>, dat = 5\<rparr>"

definition val_loader0 :: "nat tensor list" where
  "val_loader0 = [\<lparr>shp = \<lparr>batch = 1, channels = 8, depth = 8, height = 24, width = 1\<rparr>, dat = 4\<rparr>]"


definition st_a :: "(nat, nat, nat) train_state" where
  "st_a = (init_state 0 0)\<lparr>global_step := 2\<rparr>"

definition st_b :: "(nat, nat, nat) train_state" where
  "st_b = st_a\<lparr>opt_state := 9, step_loss := [7], epoch_loss := [7]\<rparr>"

section \<open>Basic facts\<close>

lemma bind_res_Inl [simp]: "bind_res (Inl e) f = Inl e"
  by (simp add: bind_res_def)

lemma bind_res_Inr [simp]: "bind_res (Inr v) f = f v"
  by (simp add: bind_res_def)

lemma conv_out_3_1_1: "0 < n \<Longrightarrow> conv_out n 3 (Suc 0) (Suc 0) = n"
  by (simp add: conv_out_def)

lemma conv_out_1_1_0: "0 < n \<Longrightarrow> conv_out n (Suc 0) (Suc 0) 0 = n"
  by (simp add: conv_out_def)

lemma conv_out_3_2_0: "2 \<le> n \<Longrightarrow> even n \<Longrightarrow> conv_out (Suc n) 3 2 0 = n div 2"
  by (auto simp: conv_out_def elim!: evenE)

lemma Conv3d_forward_same:
  assumes "conv_sig c = Some (Same i oc)" and "sig_apply (Same i oc) (shp x) = Some s'"
  shows "Conv3d_forward T P c x = Inr \<lparr>shp = s', dat = conv3d_op T P c x\<rparr>"
proof -
  from assms(2) have ch: "channels (shp x) = i" and pos: "0 < depth (shp x)" "0 < height (shp x)"
      "0 < width (shp x)" and s': "s' = (shp x)\<lparr>channels := oc\<rparr>"
    by (auto simp: sig_apply_def split: if_splits)
  from assms(1) have io: "c_in c = i" "c_out c = oc" and st: "stride c = 1"
    and kp: "kernel_size c = 3 \<and> padding c = 1 \<or> kernel_size c = 1 \<and> padding c = 0"
    by (auto simp: conv_sig_def split: if_splits)
  from kp show ?thesis
  proof
    assume "kernel_size c = 3 \<and> padding c = 1"
    with ch pos io st s' show ?thesis
      by (simp add: Conv3d_forward_def conv_fits_def conv_out_3_1_1 Let_def)
  next
    assume "kernel_size c = 1 \<and> padding c = 0"
    with ch pos io st s' show ?thesis
      by (simp add: Conv3d_forward_def conv_fits_def conv_out_1_1_0 Let_def)
  qed
qed

lemma bcast_shape_same: "bcast_shape s s = Some s"
  by (simp add: bcast_shape_def bcast_def)

lemma ResBlock_forward_same:
  assumes "res_sig rb = Some (Same i oc)" and "sig_apply (Same i oc) (shp x) = Some s'"
  shows "\<exists>y. ResBlock_forward T P rb x = Inr y \<and> shp y = s'"
proof -
  from assms(2) have ch: "channels (shp x) = i" and pos: "0 < depth (shp x)" "0 < height (shp x)"
      "0 < width (shp x)" and s': "s' = (shp x)\<lparr>channels := oc\<rparr>"
    by (auto simp: sig_apply_def split: if_splits)
  from assms(1) have rio: "rb_in_channels rb = i" "rb_out_channels rb = oc"
    and n1: "num_channels (norm1 rb) = i" and c1: "conv_sig (conv1 rb) = Some (Same i oc)"
    and n2: "num_channels (norm2 rb) = oc" and c2: "conv_sig (conv2 rb) = Some (Same oc oc)"
    and sc: "i \<noteq> oc \<Longrightarrow> \<exists>c. nin_shortcut rb = Some c \<and> conv_sig c = Some (Same i oc)"
    by (auto simp: res_sig_def Let_def split: if_splits option.splits)
  have a1: "GroupNorm_forward T P (norm1 rb) x = Inr \<lparr>shp = shp x, dat = group_norm_op T P (norm1 rb) x\<rparr>"
    using ch n1 by (simp add: GroupNorm_forward_def)
  define h1 where "h1 = silu T \<lparr>shp = shp x, dat = group_norm_op T P (norm1 rb) x\<rparr>"
  have sh1: "shp h1 = shp x" by (simp add: h1_def silu_def)
  have a2: "Conv3d_forward T P (conv1 rb) h1 = Inr \<lparr>shp = s', dat = conv3d_op T P (conv1 rb) h1\<rparr>"
    using Conv3d_forward_same [OF c1, of h1 s'] assms(2) sh1 by simp
  define h2 where "h2 = \<lparr>shp = s', dat = conv3d_op T P (conv1 rb) h1\<rparr>"
  have s'c: "channels s' = oc" and s'pos: "0 < depth s'" "0 < height s'" "0 < width s'"
    using s' pos by simp_all
  have a3: "GroupNorm_forward T P (norm2 rb) h2 = Inr \<lparr>shp = s', dat = group_norm_op T P (norm2 rb) h2\<rparr>"
    using s'c n2 by (simp add: GroupNorm_forward_def h2_def)
  define h3 where "h3 = silu T \<lparr>shp = s', dat = group_norm_op T P (norm2 rb) h2\<rparr>"
  have sh3: "shp h3 = s'" by (simp add: h3_def silu_def)
  have ap: "sig_apply (Same oc oc) s' = Some s'"
    using s'c s'pos by (simp add: sig_apply_def)
  have a4: "Conv3d_forward T P (conv2 rb) h3 = Inr \<lparr>shp = s', dat = conv3d_op T P (conv2 rb) h3\<rparr>"
    using Conv3d_forward_same [OF c2, of h3 s'] ap sh3 by simp
  define h where "h = \<lparr>shp = s', dat = conv3d_op T P (conv2 rb) h3\<rparr>"
  have skip: "\<exists>x'. (if rb_in_channels rb \<noteq> rb_out_channels rb
               then (case nin_shortcut rb of
                       None \<Rightarrow> Inl (AttributeError ''nin_shortcut'')
                     | Some sc \<Rightarrow> Conv3d_forward T P sc x)
               else Inr x) = Inr x' \<and> shp x' = s'"
  proof (cases "i = oc")
    case True
    with rio s' ch show ?thesis by auto
  next
    case False
    from sc [OF False] obtain c where c: "nin_shortcut rb = Some c" "conv_sig c = Some (Same i oc)"
      by blast
    from Conv3d_forward_same [OF c(2) assms(2), of T P] c(1) False rio show ?thesis by simp
  qed
  then obtain x' where x': "(if rb_in_channels rb \<noteq> rb_out_channels rb
               then (case nin_shortcut rb of
                       None \<Rightarrow> Inl (AttributeError ''nin_shortcut'')
                     | Some sc \<Rightarrow> Conv3d_forward T P sc x)
               else Inr x) = Inr x'" and sx': "shp x' = s'"
    by blast
  have "tensor_add T x' h = Inr \<lparr>shp = s', dat = add_op T x' h\<rparr>"
    by (simp add: tensor_add_def sx' h_def bcast_shape_same)
  then show ?thesis
    unfolding ResBlock_forward_def
    by (simp add: a1 a2 a3 a4 x' flip: h1_def h2_def h3_def h_def)
qed


lemma Downsample_forward_half:
  assumes "block_sig (BDown d) = Some (Half c)" and "sig_apply (Half c) (shp x) = Some s'"
  shows "\<exists>y. Downsample_forward T P d x = Inr y \<and> shp y = s'"
proof -
  from assms(1) have k: "kernel_size (down_conv d) = 3" "stride (down_conv d) = 2"
      "padding (down_conv d) = 0" "c_in (down_conv d) = c" "c_out (down_conv d) = c"
    by (auto simp: block_sig_def Let_def split: if_splits)
  from assms(2) have ch: "channels (shp x) = c"
    and pos: "0 < depth (shp x)" "0 < height (shp x)" "0 < width (shp x)"
    and ev: "even (depth (shp x))" "even (height (shp x))" "even (width (shp x))"
    and s': "s' = (shp x)\<lparr>depth := depth (shp x) div 2, height := height (shp x) div 2,
                        width := width (shp x) div 2\<rparr>"
    by (auto simp: sig_apply_def split: if_splits)
  have ge: "2 \<le> depth (shp x)" "2 \<le> height (shp x)" "2 \<le> width (shp x)"
    using pos ev by (auto elim!: evenE)
  show ?thesis
    using k ch ge s' ev
    by (simp add: Downsample_forward_def Conv3d_forward_def pad_0_1_def conv_fits_def Let_def
        conv_out_3_2_0)
qed

lemma Upsample_forward_double:
  assumes "block_sig (BUp u) = Some (Double c)" and "sig_apply (Double c) (shp x) = Some s'"
  shows "\<exists>y. Upsample_forward T P u x = Inr y \<and> shp y = s'"
proof -
  from assms(1) have cs: "conv_sig (up_conv u) = Some (Same c c)"
    by (auto simp: block_sig_def Let_def split: if_splits)
  from assms(2) have ch: "channels (shp x) = c" "0 < c"
    and pos: "0 < depth (shp x)" "0 < height (shp x)" "0 < width (shp x)"
    and s': "s' = (shp x)\<lparr>depth := 2 * depth (shp x), height := 2 * height (shp x),
                        width := 2 * width (shp x)\<rparr>"
    by (auto simp: sig_apply_def split: if_splits)
  define x1 where "x1 = \<lparr>shp = s', dat = interpolate_op T x\<rparr>"
  have i: "interpolate_2 T x = Inr x1"
    using ch pos s' by (simp add: interpolate_2_def Let_def x1_def)
  have "sig_apply (Same c c) (shp x1) = Some s'"
    using ch pos s' by (simp add: sig_apply_def x1_def)
  from Conv3d_forward_same [OF cs this, of T P] i show ?thesis
    by (simp add: Upsample_forward_def)
qed

lemma GroupNorm_forward_same:
  assumes "sig_apply (Same (num_channels g) (num_channels g)) (shp x) = Some s'"
  shows "\<exists>y. GroupNorm_forward T P g x = Inr y \<and> shp y = s'"
  using assms by (auto simp: sig_apply_def GroupNorm_forward_def split: if_splits)

lemma block_forward_sig:
  assumes "block_sig b = Some g" and "sig_apply g (shp x) = Some s'"
  shows "\<exists>y. block_forward T P b x = Inr y \<and> shp y = s'"
proof (cases b)
  case (BConv c)
  with assms(1) have cs: "conv_sig c = Some g" by (simp add: block_sig_def)
  then obtain i oc where g: "g = Same i oc" by (auto simp: conv_sig_def split: if_splits)
  from Conv3d_forward_same [of c i oc x s' T P] cs assms(2) g BConv show ?thesis
    by (simp add: block_forward_def)
next
  case (BNorm n)
  with assms GroupNorm_forward_same [of n x s' T P] show ?thesis
    by (simp add: block_forward_def block_sig_def)
next
  case (BRes rb)
  with assms(1) have rs: "res_sig rb = Some g" by (simp add: block_sig_def)
  then obtain i oc where g: "g = Same i oc"
    by (auto simp: res_sig_def Let_def split: if_splits)
  from ResBlock_forward_same [of rb i oc x s' T P] rs assms(2) g BRes show ?thesis
    by (simp add: block_forward_def)
next
  case (BDown d)
  with assms(1) obtain c where g: "g = Half c"
    by (auto simp: block_sig_def Let_def split: if_splits)
  from Downsample_forward_half [of d c x s' T P] assms g BDown show ?thesis
    by (simp add: block_forward_def)
next
  case (BUp u)
  with assms(1) obtain c where g: "g = Double c"
    by (auto simp: block_sig_def Let_def split: if_splits)
  from Upsample_forward_double [of u c x s' T P] assms g BUp show ?thesis
    by (simp add: block_forward_def)
qed

lemma run_blocks_sigs:
  assumes "map block_sig bs = map Some gs" and "sigs_apply gs (shp x) = Some s'"
  shows "\<exists>y. run_blocks T P bs x = Inr y \<and> shp y = s'"
  using assms
proof (induction bs arbitrary: gs x)
  case Nil
  then show ?case by simp
next
  case (Cons b bs)
  from Cons.prems(1) obtain g gs' where gs: "gs = g # gs'" and b: "block_sig b = Some g"
    and rest: "map block_sig bs = map Some gs'"
    by (cases gs) auto
  from Cons.prems(2) gs obtain s1 where s1: "sig_apply g (shp x) = Some s1"
    and r: "sigs_apply gs' s1 = Some s'"
    by (auto split: option.splits)
  from block_forward_sig [OF b s1, of T P] obtain y1 where
    y1: "block_forward T P b x = Inr y1" "shp y1 = s1"
    by blast
  from Cons.IH [OF rest, of y1] r y1(2) obtain y where "run_blocks T P bs y1 = Inr y" "shp y = s'"
    by auto
  with y1(1) show ?case by simp
qed

lemma upt4: "[0..<4] = [0, 1, 2, 3]"
  by code_simp

lemma res_loop_2:
  "res_loop nm 2 i oc bs =
     bind_res (ResBlock_init (nm @ [Idx (length bs)]) i (Some oc)) (\<lambda>r1.
     bind_res (ResBlock_init (nm @ [Idx (Suc (length bs))]) oc (Some oc)) (\<lambda>r2.
     Inr (bs @ [BRes r1, BRes r2], oc)))"
  by (simp add: numeral_2_eq_2)

lemma Encoder_init_sigs:
  "\<exists>enc. Encoder_init nm 1 64 3 [1, 2, 2, 2] 2 = Inr enc
     \<and> map block_sig (enc_blocks enc) = map Some enc_sigs"
  by (simp add: Encoder_init_def upt4 res_loop_2 ResBlock_init_def Normalize_def Conv3d_init_def
      Downsample_init_def block_sig_def res_sig_def conv_sig_def enc_sigs_def)

lemma Decoder_init_sigs:
  "\<exists>dec. Decoder_init nm 64 3 1 [1, 2, 2, 2] 2 = Inr dec
     \<and> map block_sig (dec_blocks dec) = map Some dec_sigs"
  by (simp add: Decoder_init_def upt4 res_loop_2 ResBlock_init_def Normalize_def Conv3d_init_def
      Upsample_init_def block_sig_def res_sig_def conv_sig_def dec_sigs_def)

lemma enc_sigs_apply:
  assumes "0 < d" "0 < h" "0 < w"
  shows "sigs_apply enc_sigs \<lparr>batch = b, channels = 1, depth = 8 * d, height = 8 * h, width = 8 * w\<rparr>
    = Some \<lparr>batch = b, channels = 3, depth = d, height = h, width = w\<rparr>"
  using assms by (simp add: enc_sigs_def sig_apply_def)

lemma dec_sigs_apply:
  assumes "0 < d" "0 < h" "0 < w"
  shows "sigs_apply dec_sigs \<lparr>batch = b, channels = 3, depth = d, height = h, width = w\<rparr>
    = Some \<lparr>batch = b, channels = 1, depth = 8 * d, height = 8 * h, width = 8 * w\<rparr>"
  using assms by (simp add: dec_sigs_def sig_apply_def)

lemma AutoencoderKL_init_parts:
  assumes "AutoencoderKL_init ed = Inr vae"
  shows "map block_sig (enc_blocks (encoder vae)) = map Some enc_sigs"
    and "map block_sig (dec_blocks (decoder vae)) = map Some dec_sigs"
    and "conv_sig (quant_conv_mu vae) = Some (Same 3 ed)"
    and "conv_sig (post_quant_conv vae) = Some (Same ed 3)"
proof -
  obtain enc where enc: "Encoder_init [Attr ''encoder''] 1 64 3 [1, 2, 2, 2] 2 = Inr enc"
    "map block_sig (enc_blocks enc) = map Some enc_sigs"
    using Encoder_init_sigs by blast
  obtain dec where dec: "Decoder_init [Attr ''decoder''] 64 3 1 [1, 2, 2, 2] 2 = Inr dec"
    "map block_sig (dec_blocks dec) = map Some dec_sigs"
    using Decoder_init_sigs by blast
  from assms enc(1) dec(1) have vae: "vae = \<lparr>encoder = enc, decoder = dec,
      quant_conv_mu = \<lparr>c_name = [Attr ''quant_conv_mu''], c_in = 3, c_out = ed,
        kernel_size = 1, stride = 1, padding = 0\<rparr>,
      quant_conv_log_sigma = \<lparr>c_name = [Attr ''quant_conv_log_sigma''], c_in = 3, c_out = ed,
        kernel_size = 1, stride = 1, padding = 0\<rparr>,
      post_quant_conv = \<lparr>c_name = [Attr ''post_quant_conv''], c_in = ed, c_out = 3,
        kernel_size = 1, stride = 1, padding = 0\<rparr>,
      embed_dim = ed\<rparr>"
    by (simp add: AutoencoderKL_init_def Conv3d_init_def)
  show "map block_sig (enc_blocks (encoder vae)) = map Some enc_sigs"
    using enc(2) by (simp add: vae)
  show "map block_sig (dec_blocks (decoder vae)) = map Some dec_sigs"
    using dec(2) by (simp add: vae)
  show "conv_sig (quant_conv_mu vae) = Some (Same 3 ed)"
    by (simp add: vae conv_sig_def)
  show "conv_sig (post_quant_conv vae) = Some (Same ed 3)"
    by (simp add: vae conv_sig_def)
qed

lemma AutoencoderKL_init_ok: "AutoencoderKL_init 3 = Inr vae0"
proof -
  obtain enc where enc: "Encoder_init [Attr ''encoder''] 1 64 3 [1, 2, 2, 2] 2 = Inr enc"
    using Encoder_init_sigs by blast
  obtain dec where dec: "Decoder_init [Attr ''decoder''] 64 3 1 [1, 2, 2, 2] 2 = Inr dec"
    using Decoder_init_sigs by blast
  have "\<exists>v. AutoencoderKL_init 3 = Inr v"
    using enc dec by (simp add: AutoencoderKL_init_def Conv3d_init_def)
  then show ?thesis
    by (auto simp: vae0_def)
qed

lemma shape_div8:
  assumes "channels s = 1" "8 dvd depth s" "8 dvd height s" "8 dvd width s"
  shows "s = \<lparr>batch = batch s, channels = 1, depth = 8 * (depth s div 8),
               height = 8 * (height s div 8), width = 8 * (width s div 8)\<rparr>"
  using assms by simp

lemma Encoder_forward_shape:
  assumes init: "AutoencoderKL_init ed = Inr vae"
    and ch: "channels (shp x) = 1"
    and pos: "0 < depth (shp x)" "0 < height (shp x)" "0 < width (shp x)"
    and dv: "8 dvd depth (shp x)" "8 dvd height (shp x)" "8 dvd width (shp x)"
  shows "\<exists>h. Encoder_forward T P (encoder vae) x = Inr h
           \<and> shp h = \<lparr>batch = batch (shp x), channels = 3, depth = depth (shp x) div 8,
                       height = height (shp x) div 8, width = width (shp x) div 8\<rparr>"
proof -
  have p8: "0 < depth (shp x) div 8" "0 < height (shp x) div 8" "0 < width (shp x) div 8"
    using pos dv by (auto elim!: dvdE)
  have "sigs_apply enc_sigs (shp x)
      = Some \<lparr>batch = batch (shp x), channels = 3, depth = depth (shp x) div 8,
               height = height (shp x) div 8, width = width (shp x) div 8\<rparr>"
    using enc_sigs_apply [OF p8, of "batch (shp x)"] shape_div8 [OF ch dv] by simp
  from run_blocks_sigs [OF AutoencoderKL_init_parts(1) [OF init] this, of T P]
  show ?thesis by (simp add: Encoder_forward_def)
qed

lemma encode_shape:
  assumes init: "AutoencoderKL_init ed = Inr vae"
    and ch: "channels (shp x) = 1"
    and pos: "0 < depth (shp x)" "0 < height (shp x)" "0 < width (shp x)"
    and dv: "8 dvd depth (shp x)" "8 dvd height (shp x)" "8 dvd width (shp x)"
  shows "\<exists>z. encode T P vae x = Inr (PTensor z)
           \<and> shp z = \<lparr>batch = batch (shp x), channels = ed, depth = depth (shp x) div 8,
                       height = height (shp x) div 8, width = width (shp x) div 8\<rparr>"
proof -
  from Encoder_forward_shape [OF assms, of T P] obtain h where
    h: "Encoder_forward T P (encoder vae) x = Inr h"
       "shp h = \<lparr>batch = batch (shp x), channels = 3, depth = depth (shp x) div 8,
                       height = height (shp x) div 8, width = width (shp x) div 8\<rparr>"
    by blast
  have p8: "0 < depth (shp x) div 8" "0 < height (shp x) div 8" "0 < width (shp x) div 8"
    using pos dv by (auto elim!: dvdE)
  have "sig_apply (Same 3 ed) (shp h) = Some \<lparr>batch = batch (shp x), channels = ed,
      depth = depth (shp x) div 8, height = height (shp x) div 8, width = width (shp x) div 8\<rparr>"
    using p8 by (simp add: sig_apply_def h(2))
  from Conv3d_forward_same [OF AutoencoderKL_init_parts(3) [OF init] this, of T P] h(1)
  show ?thesis by (simp add: encode_def)
qed

lemma decode_shape:
  assumes init: "AutoencoderKL_init ed = Inr vae"
    and sz: "shp z = \<lparr>batch = b, channels = ed, depth = d, height = h, width = w\<rparr>"
    and pos: "0 < d" "0 < h" "0 < w"
  shows "\<exists>y. decode T P vae (PTensor z) = Inr y
           \<and> shp y = \<lparr>batch = b, channels = 1, depth = 8 * d, height = 8 * h, width = 8 * w\<rparr>"
proof -
  have "sig_apply (Same ed 3) (shp z) = Some \<lparr>batch = b, channels = 3, depth = d, height = h, width = w\<rparr>"
    using pos by (simp add: sig_apply_def sz)
  from Conv3d_forward_same [OF AutoencoderKL_init_parts(4) [OF init] this, of T P]
  obtain z1 where z1: "Conv3d_forward T P (post_quant_conv vae) z = Inr z1"
    "shp z1 = \<lparr>batch = b, channels = 3, depth = d, height = h, width = w\<rparr>"
    by simp
  from run_blocks_sigs [OF AutoencoderKL_init_parts(2) [OF init], of z1 _ T P]
    dec_sigs_apply [OF pos, of b] z1(2)
  obtain y where "run_blocks T P (dec_blocks (decoder vae)) z1 = Inr y"
    "shp y = \<lparr>batch = b, channels = 1, depth = 8 * d, height = 8 * h, width = 8 * w\<rparr>"
    by auto
  with z1(1) show ?thesis by (simp add: decode_def Decoder_forward_def)
qed

section \<open>Shapes through the autoencoder\<close>

text \<open>
  Claim C5. For every non-empty single-channel input volume whose depth, height and width
  are divisible by 8, the encoder of the autoencoder returns a latent tensor with the same
  batch size, 3 channels (\<open>z_channels\<close>) and every spatial dimension exactly one eighth
  of the input's. The encoder's blocks are a convolution, then residual blocks with three
  \<open>Downsample\<close> blocks between them, a normalization and a convolution (\<open>enc_sigs\<close>):
  each \<open>Downsample\<close> halves every even spatial dimension
  (\<open>Downsample_forward_half\<close>), every other block keeps the spatial size.
\<close>

theorem Encoder_latent_shape:
  assumes "AutoencoderKL_init ed = Inr vae"
    and "channels (shp x) = 1"
    and "0 < depth (shp x)" "0 < height (shp x)" "0 < width (shp x)"
    and "8 dvd depth (shp x)" "8 dvd height (shp x)" "8 dvd width (shp x)"
  shows "\<exists>h. Encoder_forward T P (encoder vae) x = Inr h
           \<and> shp h = \<lparr>batch = batch (shp x), channels = 3, depth = depth (shp x) div 8,
                       height = height (shp x) div 8, width = width (shp x) div 8\<rparr>"
  using assms by (rule Encoder_forward_shape)

theorem Encoder_latent_shape_witness:
  "AutoencoderKL_init 3 = Inr vae0 \<and> channels (shp volume0) = 1
   \<and> 8 dvd depth (shp volume0) \<and> 8 dvd height (shp volume0) \<and> 8 dvd width (shp volume0)
   \<and> (\<exists>h. Encoder_forward nat_torch 0 (encoder vae0) volume0 = Inr h
        \<and> shp h = \<lparr>batch = 2, channels = 3, depth = 1, height = 2, width = 3\<rparr>)"
  using Encoder_latent_shape [of 3 vae0 volume0 nat_torch 0] AutoencoderKL_init_ok
  by (simp add: volume0_def)

text \<open>
  Claim C6. For every non-empty single-channel input volume \<open>x\<close> whose spatial dimensions
  are divisible by 8, \<open>encode\<close> succeeds and \<open>decode\<close> of its result succeeds and returns
  a tensor of the shape of \<open>x\<close>: the three \<open>Upsample\<close> blocks of the decoder double every
  spatial dimension (\<open>Upsample_forward_double\<close>, \<open>dec_sigs\<close>) and its last convolution
  has one output channel.
\<close>

theorem decode_encode_shape:
  assumes init: "AutoencoderKL_init ed = Inr vae"
    and ch: "channels (shp x) = 1"
    and pos: "0 < depth (shp x)" "0 < height (shp x)" "0 < width (shp x)"
    and dv: "8 dvd depth (shp x)" "8 dvd height (shp x)" "8 dvd width (shp x)"
  shows "\<exists>z y. encode T P vae x = Inr z \<and> decode T P vae z = Inr y \<and> shp y = shp x"
proof -
  from encode_shape [OF assms, of T P] obtain z where
    z: "encode T P vae x = Inr (PTensor z)"
       "shp z = \<lparr>batch = batch (shp x), channels = ed, depth = depth (shp x) div 8,
                       height = height (shp x) div 8, width = width (shp x) div 8\<rparr>"
    by blast
  have p8: "0 < depth (shp x) div 8" "0 < height (shp x) div 8" "0 < width (shp x) div 8"
    using pos dv by (auto elim!: dvdE)
  from decode_shape [OF init z(2) p8, of T P] obtain y where
    y: "decode T P vae (PTensor z) = Inr y"
       "shp y = \<lparr>batch = batch (shp x), channels = 1, depth = 8 * (depth (shp x) div 8),
                 height = 8 * (height (shp x) div 8), width = 8 * (width (shp x) div 8)\<rparr>"
    by blast
  from y(2) shape_div8 [OF ch dv] have "shp y = shp x" by simp
  with z(1) y(1) show ?thesis by blast
qed

theorem decode_encode_shape_witness:
  "AutoencoderKL_init 3 = Inr vae0 \<and> channels (shp volume0) = 1
   \<and> 8 dvd depth (shp volume0) \<and> 8 dvd height (shp volume0) \<and> 8 dvd width (shp volume0)
   \<and> (\<exists>z y. encode nat_torch 0 vae0 volume0 = Inr z \<and> decode nat_torch 0 vae0 z = Inr y
        \<and> shp y = \<lparr>batch = 2, channels = 1, depth = 8, height = 16, width = 24\<rparr>)"
  using decode_encode_shape [of 3 vae0 volume0 nat_torch 0] AutoencoderKL_init_ok
  by (simp add: volume0_def)

text \<open>
  Claim C1 says that \<open>encode\<close> returns the pair \<open>(z_mu, z_sigma)\<close>. On the volume
  \<open>volume0\<close> the code returns one tensor, the latent mean of shape (2, 3, 1, 2, 3), and
  not a pair of tensors.
\<close>

theorem encode_returns_mean_only:
  "(\<exists>z_mu. encode nat_torch 0 vae0 volume0 = Inr (PTensor z_mu)
      \<and> shp z_mu = \<lparr>batch = 2, channels = 3, depth = 1, height = 2, width = 3\<rparr>)
   \<and> (\<forall>z_mu z_sigma. encode nat_torch 0 vae0 volume0 \<noteq> Inr (PTuple [PTensor z_mu, PTensor z_sigma]))"
proof -
  from encode_shape [OF AutoencoderKL_init_ok, of volume0 nat_torch 0]
  obtain z where z: "encode nat_torch 0 vae0 volume0 = Inr (PTensor z)"
    "shp z = \<lparr>batch = 2, channels = 3, depth = 1, height = 2, width = 3\<rparr>"
    by (auto simp: volume0_def)
  then show ?thesis by auto
qed

section \<open>The residual block\<close>

text \<open>
  Claim C4. For a residual block built by its constructor from \<open>in_channels = ic\<close> and
  \<open>out_channels = oc\<close>, and an input \<open>x\<close> on which the main path
  \<open>h = conv2(silu(norm2(conv1(silu(norm1(x))))))\<close> succeeds, the output is \<open>x + h\<close> when
  \<open>ic = oc\<close>, and \<open>nin_shortcut(x) + h\<close> otherwise, where \<open>nin_shortcut\<close> is a
  convolution from \<open>ic\<close> to \<open>oc\<close> channels with kernel size 1, stride 1 and no padding.
\<close>

theorem ResBlock_forward_skip:
  assumes "ResBlock_init nm ic (Some oc) = Inr rb"
    and "GroupNorm_forward T P (norm1 rb) x = Inr a1"
    and "Conv3d_forward T P (conv1 rb) (silu T a1) = Inr a2"
    and "GroupNorm_forward T P (norm2 rb) a2 = Inr a3"
    and "Conv3d_forward T P (conv2 rb) (silu T a3) = Inr h"
  shows "ResBlock_forward T P rb x =
     (if ic = oc then tensor_add T x h
      else bind_res (Conv3d_forward T P
                       \<lparr>c_name = nm @ [Attr ''nin_shortcut''], c_in = ic, c_out = oc,
                        kernel_size = 1, stride = 1, padding = 0\<rparr> x)
             (\<lambda>sx. tensor_add T sx h))"
proof -
  from assms(1) have io: "rb_in_channels rb = ic" "rb_out_channels rb = oc"
    and sc: "nin_shortcut rb = (if ic \<noteq> oc
        then Some \<lparr>c_name = nm @ [Attr ''nin_shortcut''], c_in = ic, c_out = oc,
                        kernel_size = 1, stride = 1, padding = 0\<rparr> else None)"
    by (auto simp: ResBlock_init_def Normalize_def Conv3d_init_def Let_def split: if_splits)
  show ?thesis
    by (simp add: ResBlock_forward_def assms(2-5) io sc)
qed

theorem ResBlock_forward_skip_witness:
  "ResBlock_init [Idx 4] 64 (Some 128) = Inr rb0
   \<and> ResBlock_forward nat_torch 0 rb0 volume64
       = Inr \<lparr>shp = \<lparr>batch = 1, channels = 128, depth = 2, height = 2, width = 2\<rparr>, dat = 6\<rparr>"
proof -
  have i: "ResBlock_init [Idx 4] 64 (Some 128) = Inr rb0"
    by (simp add: rb0_def ResBlock_init_def Normalize_def Conv3d_init_def)
  have rb: "rb0 = \<lparr>rb_in_channels = 64, rb_out_channels = 128,
      norm1 = \<lparr>g_name = [Idx 4, Attr ''norm1''], num_groups = 32, num_channels = 64\<rparr>,
      conv1 = \<lparr>c_name = [Idx 4, Attr ''conv1''], c_in = 64, c_out = 128, kernel_size = 3,
                stride = 1, padding = 1\<rparr>,
      norm2 = \<lparr>g_name = [Idx 4, Attr ''norm2''], num_groups = 32, num_channels = 128\<rparr>,
      conv2 = \<lparr>c_name = [Idx 4, Attr ''conv2''], c_in = 128, c_out = 128, kernel_size = 3,
                stride = 1, padding = 1\<rparr>,
      nin_shortcut = Some \<lparr>c_name = [Idx 4, Attr ''nin_shortcut''], c_in = 64, c_out = 128,
                kernel_size = 1, stride = 1, padding = 0\<rparr>\<rparr>"
    by (simp add: rb0_def ResBlock_init_def Normalize_def Conv3d_init_def)
  define s128 where "s128 = \<lparr>batch = 1, channels = 128, depth = 2, height = 2, width = 2::nat\<rparr>"
  have a1: "GroupNorm_forward nat_torch 0 (norm1 rb0) volume64 = Inr volume64"
    by (simp add: rb GroupNorm_forward_def volume64_def nat_torch_def)
  have a2: "Conv3d_forward nat_torch 0 (conv1 rb0) (silu nat_torch volume64)
      = Inr \<lparr>shp = s128, dat = 3\<rparr>"
    by (simp add: rb Conv3d_forward_def conv_fits_def conv_out_3_1_1 silu_def volume64_def
        nat_torch_def s128_def)
  have a3: "GroupNorm_forward nat_torch 0 (norm2 rb0) \<lparr>shp = s128, dat = 3\<rparr>
      = Inr \<lparr>shp = s128, dat = 3\<rparr>"
    by (simp add: rb GroupNorm_forward_def nat_torch_def s128_def)
  have a4: "Conv3d_forward nat_torch 0 (conv2 rb0) (silu nat_torch \<lparr>shp = s128, dat = 3\<rparr>)
      = Inr \<lparr>shp = s128, dat = 3\<rparr>"
    by (simp add: rb Conv3d_forward_def conv_fits_def conv_out_3_1_1 silu_def nat_torch_def
        s128_def)
  from ResBlock_forward_skip [OF i a1 a2 a3 a4] have
    "ResBlock_forward nat_torch 0 rb0 volume64
      = bind_res (Conv3d_forward nat_torch 0
                       \<lparr>c_name = [Idx 4] @ [Attr ''nin_shortcut''], c_in = 64, c_out = 128,
                        kernel_size = 1, stride = 1, padding = 0\<rparr> volume64)
             (\<lambda>sx. tensor_add nat_torch sx \<lparr>shp = s128, dat = 3\<rparr>)"
    by simp
  also have "\<dots> = Inr \<lparr>shp = s128, dat = 6\<rparr>"
    by (simp add: Conv3d_forward_def conv_fits_def conv_out_1_1_0 volume64_def nat_torch_def
        tensor_add_def bcast_shape_same s128_def)
  finally show ?thesis using i by (simp add: s128_def)
qed

section \<open>Sampling\<close>

text \<open>
  Claim C7. For a mean \<open>z_mu\<close> and a sigma \<open>z_sigma\<close> of the same shape, \<open>sampling\<close>
  draws the data \<open>e\<close> of a noise tensor \<open>eps\<close> of the shape of \<open>z_sigma\<close> from the random
  generator and returns \<open>z_mu + eps * z_sigma\<close>, leaving the generator advanced. That
  \<open>eps\<close> is standard Gaussian is the contract of \<open>torch.randn_like\<close>, a parameter here.
\<close>

theorem sampling_reparameterization:
  assumes "shp z_mu = shp z_sigma" and "randn g (shp z_sigma) = (e, g')"
  shows "sampling T randn g z_mu z_sigma =
     (Inr \<lparr>shp = shp z_sigma,
           dat = add_op T z_mu
                   \<lparr>shp = shp z_sigma,
                    dat = mul_op T \<lparr>shp = shp z_sigma, dat = e\<rparr> z_sigma\<rparr>\<rparr>, g')"
  using assms
  by (simp add: sampling_def randn_like_def tensor_mul_def tensor_add_def bcast_shape_same)

theorem sampling_reparameterization_witness:
  "sampling nat_torch counter_randn 7 (volume0\<lparr>dat := 2\<rparr>) (volume0\<lparr>dat := 3\<rparr>)
     = (Inr (volume0\<lparr>dat := 23\<rparr>), 8)"
proof -
  have s: "shp (volume0\<lparr>dat := 2\<rparr>) = shp (volume0\<lparr>dat := 3\<rparr>)" by simp
  have r: "counter_randn 7 (shp (volume0\<lparr>dat := 3\<rparr>)) = (7, 8)"
    by (simp add: counter_randn_def)
  from sampling_reparameterization
    [where z_mu = "volume0\<lparr>dat := 2\<rparr>" and z_sigma = "volume0\<lparr>dat := 3\<rparr>"
       and randn = counter_randn and g = 7 and e = 7 and g' = 8 and T = nat_torch] s r
  show ?thesis
    by (simp add: nat_torch_def volume0_def)
qed

section \<open>OnlyEncoder\<close>

text \<open>
  Claim C10. \<open>OnlyEncoder.__init__\<close> always fails: the name \<open>embed_dim\<close> is bound neither
  in the constructor, nor at the top level of the module, and no builtin has this name, so
  after building the encoder the constructor raises \<open>NameError\<close>.
\<close>

lemma module_globals_embed_dim: "map_of module_globals ''embed_dim'' = None"
  by (simp add: module_globals_def)

theorem OnlyEncoder_init_fails:
  assumes "map_of builtins ''embed_dim'' = None"
  shows "OnlyEncoder_init builtins = Inl (NameError ''embed_dim'')"
proof -
  obtain enc where "Encoder_init [Attr ''encoder''] 1 64 3 [1, 2, 2, 2] 2 = Inr enc"
    using Encoder_init_sigs by blast
  moreover have "load_name [(''self'', BOther)] module_globals builtins ''embed_dim''
      = Inl (NameError ''embed_dim'')"
    using assms by (simp add: load_name_def module_globals_embed_dim)
  ultimately show ?thesis
    by (simp add: OnlyEncoder_init_def)
qed

theorem OnlyEncoder_init_fails_witness:
  "map_of [(''len'', BOther), (''print'', BOther)] ''embed_dim'' = None
   \<and> OnlyEncoder_init [(''len'', BOther), (''print'', BOther)] = Inl (NameError ''embed_dim'')"
  using OnlyEncoder_init_fails [of "[(''len'', BOther), (''print'', BOther)]"] by simp

section \<open>The training loop: frames and success\<close>

lemma bind_res_eq_Inr:
  "bind_res m f = Inr y \<longleftrightarrow> (\<exists>v. m = Inr v \<and> f v = Inr y)"
  by (cases m) simp_all

lemma py_mod_eq_Inr: "py_mod a b = Inr r \<longleftrightarrow> b \<noteq> 0 \<and> r = a mod b"
  by (auto simp: py_mod_def)

lemma count_step_frame:
  "params (count_step loss s) = params s" "opt_state (count_step loss s) = opt_state s"
  "files (count_step loss s) = files s" "global_step (count_step loss s) = global_step s + 1"
  by (simp_all add: count_step_def)

lemma log_loss_frame:
  assumes "log_loss L cfg m s = Inr s'"
  shows "params s' = params s \<and> opt_state s' = opt_state s \<and> files s' = files s
    \<and> global_step s' = global_step s"
  using assms
  by (auto simp: log_loss_def bind_res_eq_Inr Let_def split: if_splits)

lemma save_checkpoint_frame:
  assumes "save_checkpoint cfg m s = Inr s'"
  shows "params s' = params s \<and> opt_state s' = opt_state s \<and> global_step s' = global_step s"
  using assms
  by (auto simp: save_checkpoint_def bind_res_eq_Inr Let_def split: if_splits)

lemma save_checkpoint_files:
  assumes "save_checkpoint cfg m s = Inr s'"
  shows "files s' = (if m \<and> ckpt_every cfg dvd global_step s \<and> 0 < global_step s
                     then files s @ [(ckpt_path cfg (global_step s), params s)] else files s)"
  using assms
  by (auto simp: save_checkpoint_def bind_res_eq_Inr py_mod_eq_Inr Let_def mod_eq_0_iff_dvd
      split: if_splits)

lemma add_images_frame:
  assumes "add_images L tag pred gt s = Inr s'"
  shows "params s' = params s \<and> opt_state s' = opt_state s \<and> files s' = files s
    \<and> global_step s' = global_step s"
  using assms
  by (auto simp: add_images_def bind_res_eq_Inr split: prod.splits)

lemma log_images_frame:
  assumes "log_images L cfg m grad z_pred s = Inr s'"
  shows "params s' = params s \<and> opt_state s' = opt_state s \<and> files s' = files s
    \<and> global_step s' = global_step s"
  using assms
  by (auto simp: log_images_def bind_res_eq_Inr Let_def split: if_splits
      dest!: add_images_frame)

lemma val_batches_frame:
  assumes "val_batches T L m vae bs (s, vl, vp) = Inr (s', vl', vp')"
  shows "params s' = params s \<and> opt_state s' = opt_state s \<and> files s' = files s
    \<and> global_step s' = global_step s"
  using assms
proof (induction bs arbitrary: s vl vp)
  case Nil
  then show ?case by simp
next
  case (Cons b bs)
  let ?val_gt = "slice_last L 16 144 (rearrange L b)"
  from Cons.prems obtain z_pred loss psnr s1 where
    s1: "(if m then add_images L ''val'' z_pred ?val_gt s else Inr s) = Inr s1"
    and rest: "val_batches T L m vae bs (s1\<lparr>training := True\<rparr>, vl @ [loss], vp @ [psnr])
                 = Inr (s', vl', vp')"
    by (auto simp: bind_res_eq_Inr Let_def)
  from s1 have "params s1 = params s \<and> opt_state s1 = opt_state s \<and> files s1 = files s
    \<and> global_step s1 = global_step s"
    by (cases m) (auto dest: add_images_frame)
  with Cons.IH [OF rest] show ?case by simp
qed

lemma validate_frame:
  assumes "validate T L cfg m vae val_loader s = Inr s'"
  shows "params s' = params s \<and> opt_state s' = opt_state s \<and> files s' = files s
    \<and> global_step s' = global_step s"
proof -
  from assms obtain r where r: "py_mod (global_step s) (val_every cfg) = Inr r"
    by (auto simp: validate_def bind_res_eq_Inr)
  show ?thesis
  proof (cases "r = 0 \<and> global_step s > 0")
    case False
    with assms r show ?thesis by (auto simp: validate_def)
  next
    case True
    with assms r obtain s1 val_loss val_psnr where
      vb: "val_batches T L m vae val_loader (s\<lparr>training := False\<rparr>, [], [])
             = Inr (s1, val_loss, val_psnr)"
      and s': "s' = (if m
                     then s1\<lparr>writer := writer s1
                               @ [Scalar ''val/loss'' (gather_mean L val_loss) (global_step s1),
                                  Scalar ''val/psnr'' (gather_mean L val_psnr) (global_step s1)]\<rparr>
                     else s1)\<lparr>training := True\<rparr>"
      by (auto simp: validate_def bind_res_eq_Inr Let_def)
    from val_batches_frame [OF vb] s' show ?thesis by simp
  qed
qed


lemma forward_backward_result:
  assumes "forward_backward T L vae raw random_start s = Inr (grad, z_pred, loss, s1)"
  shows "grad = slice_last L random_start (random_start + 128) (rearrange L raw)"
    and "reconstruct T vae grad (params s) = Inr z_pred"
    and "mse_loss L grad z_pred = Inr loss"
    and "s1 = opt_step L (backward L (step_loss_fn T L vae grad) (zero_grad s))"
  using assms
  by (auto simp: forward_backward_def reconstruct_def bind_res_eq_Inr Let_def)

lemma opt_step_frame:
  "files (opt_step L s) = files s" "global_step (opt_step L s) = global_step s"
  "params (opt_step L s) = fst (adamw_step L (opt_state s) (params s) (grads s))"
  "opt_state (opt_step L s) = snd (adamw_step L (opt_state s) (params s) (grads s))"
  "grads (opt_step L s) = grads s"
  by (simp_all add: opt_step_def split: prod.splits)

lemma backward_zero_grad_frame:
  "params (backward L f (zero_grad s)) = params s"
  "opt_state (backward L f (zero_grad s)) = opt_state s"
  "files (backward L f (zero_grad s)) = files s"
  "global_step (backward L f (zero_grad s)) = global_step s"
  "grads (backward L f (zero_grad s)) = autograd L f (params s) None"
  by (simp_all add: backward_def zero_grad_def)

lemma after_step_frame:
  assumes "after_step T L cfg m vae val_loader grad z_pred loss s = Inr s'"
  shows "params s' = params s \<and> opt_state s' = opt_state s
    \<and> global_step s' = global_step s + 1
    \<and> files s' = (if m \<and> ckpt_every cfg dvd (global_step s + 1) \<and> 0 < global_step s + 1
                   then files s @ [(ckpt_path cfg (global_step s + 1), params s)] else files s)"
proof -
  from assms obtain s1 s2 s3 where
    1: "log_loss L cfg m (count_step loss s) = Inr s1"
    and 2: "save_checkpoint cfg m s1 = Inr s2"
    and 3: "log_images L cfg m grad z_pred s2 = Inr s3"
    and 4: "validate T L cfg m vae val_loader s3 = Inr s'"
    by (auto simp: after_step_def bind_res_eq_Inr)
  from log_loss_frame [OF 1] have f1: "params s1 = params s" "opt_state s1 = opt_state s"
    "files s1 = files s" "global_step s1 = global_step s + 1"
    by (simp_all add: count_step_frame)
  from save_checkpoint_frame [OF 2] save_checkpoint_files [OF 2] f1
  have f2: "params s2 = params s" "opt_state s2 = opt_state s"
    "global_step s2 = global_step s + 1"
    "files s2 = (if m \<and> ckpt_every cfg dvd (global_step s + 1) \<and> 0 < global_step s + 1
                   then files s @ [(ckpt_path cfg (global_step s + 1), params s)] else files s)"
    by simp_all
  from log_images_frame [OF 3] validate_frame [OF 4] f2 show ?thesis by simp
qed






lemma end_epoch_frame:
  "params (end_epoch L m s) = params s" "opt_state (end_epoch L m s) = opt_state s"
  "files (end_epoch L m s) = files s" "global_step (end_epoch L m s) = global_step s"
  by (simp_all add: end_epoch_def Let_def)



lemma reconstruct_ok:
  assumes init: "AutoencoderKL_init ed = Inr vae" and ok: "volume_ok (shp x)"
  shows "\<exists>y. reconstruct T vae x P = Inr y \<and> shp y = shp x"
proof -
  from ok have ch: "channels (shp x) = 1"
    and pos: "0 < depth (shp x)" "0 < height (shp x)" "0 < width (shp x)"
    and dv: "8 dvd depth (shp x)" "8 dvd height (shp x)" "8 dvd width (shp x)"
    by (simp_all add: volume_ok_def)
  from encode_shape [OF init ch pos dv, of T P] obtain z where
    z: "encode T P vae x = Inr (PTensor z)"
       "shp z = \<lparr>batch = batch (shp x), channels = ed, depth = depth (shp x) div 8,
                       height = height (shp x) div 8, width = width (shp x) div 8\<rparr>"
    by blast
  have p8: "0 < depth (shp x) div 8" "0 < height (shp x) div 8" "0 < width (shp x) div 8"
    using pos dv by (auto elim!: dvdE)
  from decode_shape [OF init z(2) p8, of T P] obtain y where
    y: "decode T P vae (PTensor z) = Inr y"
       "shp y = \<lparr>batch = batch (shp x), channels = 1, depth = 8 * (depth (shp x) div 8),
                 height = 8 * (height (shp x) div 8), width = 8 * (width (shp x) div 8)\<rparr>"
    by blast
  from y(2) shape_div8 [OF ch dv] have "shp y = shp x" by simp
  with z(1) y(1) show ?thesis by (simp add: reconstruct_def)
qed

lemma forward_backward_ok:
  assumes init: "AutoencoderKL_init ed = Inr vae"
    and ok: "volume_ok (shp (slice_last L rs (rs + 128) (rearrange L raw)))"
  shows "\<exists>grad z_pred loss s1.
           forward_backward T L vae raw rs s = Inr (grad, z_pred, loss, s1)"
proof -
  let ?grad = "slice_last L rs (rs + 128) (rearrange L raw)"
  from reconstruct_ok [OF init ok, of T "params s"] obtain y where
    y: "reconstruct T vae ?grad (params s) = Inr y" "shp y = shp ?grad"
    by blast
  then obtain z where z: "encode T (params s) vae ?grad = Inr z"
    "decode T (params s) vae z = Inr y"
    by (auto simp: reconstruct_def bind_res_eq_Inr)
  have "mse_loss L ?grad y = Inr (mse_op L ?grad y)"
    by (simp add: mse_loss_def y(2) bcast_shape_same)
  with z show ?thesis
    by (simp add: forward_backward_def Let_def)
qed

lemma add_images_ok:
  assumes "\<And>x y. \<exists>r. grids_op L x y = Inr r"
  shows "\<exists>s'. add_images L tag pred gt s = Inr s'"
proof -
  from assms obtain r where "grids_op L pred gt = Inr r" by blast
  then show ?thesis by (cases r) (simp add: add_images_def)
qed

lemma val_batches_ok:
  assumes init: "AutoencoderKL_init ed = Inr vae"
    and grids: "\<And>x y. \<exists>r. grids_op L x y = Inr r"
    and ok: "\<forall>vb \<in> set bs. volume_ok (shp (slice_last L 16 144 (rearrange L vb)))"
  shows "\<exists>r. val_batches T L m vae bs (s, vl, vp) = Inr r"
  using ok
proof (induction bs arbitrary: s vl vp)
  case Nil
  then show ?case by simp
next
  case (Cons b bs)
  let ?val_gt = "slice_last L 16 144 (rearrange L b)"
  from Cons.prems have okb: "volume_ok (shp ?val_gt)" by simp
  from reconstruct_ok [OF init okb, of T "params s"] obtain y where
    y: "reconstruct T vae ?val_gt (params s) = Inr y" "shp y = shp ?val_gt"
    by blast
  then obtain z where z: "encode T (params s) vae ?val_gt = Inr z"
    "decode T (params s) vae z = Inr y"
    by (auto simp: reconstruct_def bind_res_eq_Inr)
  have l: "mse_loss L ?val_gt y = Inr (mse_op L ?val_gt y)"
    by (simp add: mse_loss_def y(2) bcast_shape_same)
  have p: "calculate_psnr_pt L y ?val_gt = Inr (psnr_op L y ?val_gt)"
    by (simp add: calculate_psnr_pt_def y(2))
  obtain s1 where s1: "(if m then add_images L ''val'' y ?val_gt s else Inr s) = Inr s1"
    using add_images_ok [OF grids, of "''val''" y ?val_gt s] by (cases m) auto
  from Cons.IH [of "s1\<lparr>training := True\<rparr>" "vl @ [mse_op L ?val_gt y]"
      "vp @ [psnr_op L y ?val_gt]"] Cons.prems
  obtain r where "val_batches T L m vae bs
      (s1\<lparr>training := True\<rparr>, vl @ [mse_op L ?val_gt y], vp @ [psnr_op L y ?val_gt]) = Inr r"
    by auto
  with z l p s1 show ?case by (cases r) (simp add: Let_def)
qed

lemma after_step_ok:
  assumes init: "AutoencoderKL_init ed = Inr vae"
    and grids: "\<And>x y. \<exists>r. grids_op L x y = Inr r"
    and ok: "\<forall>vb \<in> set val_loader. volume_ok (shp (slice_last L 16 144 (rearrange L vb)))"
    and nz: "log_every cfg \<noteq> 0" "ckpt_every cfg \<noteq> 0" "image_every cfg \<noteq> 0" "val_every cfg \<noteq> 0"
  shows "\<exists>s'. after_step T L cfg m vae val_loader grad z_pred loss s = Inr s'"
proof -
  have "\<exists>s1. log_loss L cfg m (count_step loss s) = Inr s1"
    using nz(1) by (simp add: log_loss_def py_mod_def Let_def)
  then obtain s1 where 1: "log_loss L cfg m (count_step loss s) = Inr s1" by blast
  have "\<exists>s2. save_checkpoint cfg m s1 = Inr s2"
    using nz(2) by (simp add: save_checkpoint_def py_mod_def Let_def)
  then obtain s2 where 2: "save_checkpoint cfg m s1 = Inr s2" by blast
  have "\<exists>s3. log_images L cfg m grad z_pred s2 = Inr s3"
  proof (cases "global_step s2 mod image_every cfg = 0 \<or> global_step s2 = 1")
    case False
    with nz(3) show ?thesis by (auto simp: log_images_def py_mod_def)
  next
    case True
    obtain t where "(if m then add_images L ''slice'' (head_batch L z_pred) (head_batch L grad)
        (s2\<lparr>training := False\<rparr>) else Inr (s2\<lparr>training := False\<rparr>)) = Inr t"
      using add_images_ok [OF grids, of "''slice''" "head_batch L z_pred" "head_batch L grad"
          "s2\<lparr>training := False\<rparr>"]
      by (cases m) auto
    with True nz(3) show ?thesis by (simp add: log_images_def py_mod_def Let_def)
  qed
  then obtain s3 where 3: "log_images L cfg m grad z_pred s2 = Inr s3" by blast
  have "\<exists>s'. validate T L cfg m vae val_loader s3 = Inr s'"
  proof (cases "global_step s3 mod val_every cfg = 0 \<and> global_step s3 > 0")
    case False
    with nz(4) show ?thesis by (auto simp: validate_def py_mod_def)
  next
    case True
    from val_batches_ok [OF init grids ok, of T m "s3\<lparr>training := False\<rparr>" "[]" "[]"]
    obtain r where "val_batches T L m vae val_loader (s3\<lparr>training := False\<rparr>, [], []) = Inr r"
      by blast
    with True nz(4) show ?thesis
      by (cases r) (simp add: validate_def py_mod_def Let_def)
  qed
  with 1 2 3 show ?thesis by (simp add: after_step_def)
qed

lemma train_iter_ok:
  assumes init: "AutoencoderKL_init ed = Inr vae"
    and grids: "\<And>x y. \<exists>r. grids_op L x y = Inr r"
    and okb: "volume_ok (shp (slice_last L (snd b) (snd b + 128) (rearrange L (fst b))))"
    and ok: "\<forall>vb \<in> set val_loader. volume_ok (shp (slice_last L 16 144 (rearrange L vb)))"
    and nz: "log_every cfg \<noteq> 0" "ckpt_every cfg \<noteq> 0" "image_every cfg \<noteq> 0" "val_every cfg \<noteq> 0"
  shows "\<exists>s'. train_iter T L cfg m vae val_loader b s = Inr s'"
proof -
  from forward_backward_ok [OF init okb, of T s] obtain grad z_pred loss s1 where
    fb: "forward_backward T L vae (fst b) (snd b) s = Inr (grad, z_pred, loss, s1)"
    by blast
  from after_step_ok [OF init grids ok nz, of T m grad z_pred loss s1] fb
  show ?thesis by (simp add: train_iter_def)
qed

lemma fixtures_ok:
  "\<And>x y. \<exists>r. grids_op nat_lib x y = Inr r"
  "volume_ok (shp (slice_last nat_lib (snd (batch0, 0)) (snd (batch0, 0) + 128)
      (rearrange nat_lib (fst (batch0, 0)))))"
  "\<forall>vb \<in> set val_loader0. volume_ok (shp (slice_last nat_lib 16 144 (rearrange nat_lib vb)))"
  "log_every cfg0 \<noteq> 0" "ckpt_every cfg0 \<noteq> 0" "image_every cfg0 \<noteq> 0" "val_every cfg0 \<noteq> 0"
  by (simp_all add: nat_lib_def volume_ok_def slice_last_def rearrange_def batch0_def
      val_loader0_def cfg0_def)



lemma ckpt_path_cfg0_2: "ckpt_path cfg0 2 = ''exp/checkpoints/0000002_gradvae.pt''"
  by code_simp

section \<open>The training step\<close>

text \<open>
  Claim C2. On every training step that completes, the batch \<open>grad\<close> (rearranged and
  cropped) is reconstructed as \<open>z_pred = decode(encode(grad))\<close> with the current
  parameters, the loss is the mean-squared error of \<open>grad\<close> and \<open>z_pred\<close>, and the
  parameters and the optimizer's state after the step are those of the optimizer's step on
  the gradients of exactly this loss, as a function of the parameters: no other term is
  added.
\<close>

theorem training_loss_is_mse:
  assumes "train_iter T L cfg m vae val_loader b s = Inr s'"
  shows "\<exists>grad z_pred loss.
           grad = slice_last L (snd b) (snd b + 128) (rearrange L (fst b))
         \<and> reconstruct T vae grad (params s) = Inr z_pred
         \<and> mse_loss L grad z_pred = Inr loss \<and> loss = mse_op L grad z_pred
         \<and> (params s', opt_state s')
             = adamw_step L (opt_state s) (params s)
                 (autograd L (\<lambda>P. bind_res (reconstruct T vae grad P) (mse_loss L grad))
                    (params s) None)"
proof -
  from assms obtain grad z_pred loss s1 where
    fb: "forward_backward T L vae (fst b) (snd b) s = Inr (grad, z_pred, loss, s1)"
    and as: "after_step T L cfg m vae val_loader grad z_pred loss s1 = Inr s'"
    by (auto simp: train_iter_def bind_res_eq_Inr)
  note r = forward_backward_result [OF fb]
  have fn: "\<And>g. step_loss_fn T L vae g = (\<lambda>P. bind_res (reconstruct T vae g P) (mse_loss L g))"
    by (rule ext) (simp add: step_loss_fn_def)
  from r(3) have "loss = mse_op L grad z_pred"
    by (auto simp: mse_loss_def split: option.splits)
  moreover from after_step_frame [OF as] r(4)
  have "(params s', opt_state s')
      = adamw_step L (opt_state s) (params s) (autograd L (step_loss_fn T L vae grad) (params s) None)"
    by (simp add: opt_step_frame backward_zero_grad_frame)
  ultimately show ?thesis using r(1-3) by (simp add: fn)
qed

theorem training_loss_is_mse_witness:
  "\<exists>s' z_pred.
     train_iter nat_torch nat_lib cfg0 True vae0 val_loader0 (batch0, 0) (init_state 0 0) = Inr s'
     \<and> reconstruct nat_torch vae0 (volume0 :: nat tensor) 0 = Inr z_pred
     \<and> mse_loss nat_lib volume0 z_pred = Inr (mse_op nat_lib volume0 z_pred)
     \<and> (params s', opt_state s') = (1, 1)"
proof -
  from train_iter_ok [OF AutoencoderKL_init_ok fixtures_ok, of nat_torch True "init_state 0 0"]
  obtain s' where s': "train_iter nat_torch nat_lib cfg0 True vae0 val_loader0 (batch0, 0)
      (init_state 0 0) = Inr s'"
    by blast
  have g: "slice_last nat_lib (snd (batch0, 0::nat)) (snd (batch0, 0::nat) + 128)
      (rearrange nat_lib (fst (batch0, 0::nat))) = volume0"
    by (simp add: slice_last_def rearrange_def batch0_def volume0_def nat_lib_def)
  from training_loss_is_mse [OF s'] g obtain z_pred where
    "reconstruct nat_torch vae0 volume0 (params (init_state 0 0 :: (nat, nat, nat) train_state))
       = Inr z_pred"
    "mse_loss nat_lib volume0 z_pred = Inr (mse_op nat_lib volume0 z_pred)"
    "(params s', opt_state s')
       = adamw_step nat_lib (opt_state (init_state 0 0 :: (nat, nat, nat) train_state))
           (params (init_state 0 0 :: (nat, nat, nat) train_state))
           (autograd nat_lib (\<lambda>P. bind_res (reconstruct nat_torch vae0 volume0 P)
              (mse_loss nat_lib volume0))
              (params (init_state 0 0 :: (nat, nat, nat) train_state)) None)"
    by auto
  with s' show ?thesis
    by (auto simp: init_state_def nat_lib_def)
qed

section \<open>Checkpoints\<close>

text \<open>
  Claim C3 says that the global step counter, the loss buffers and the optimizer's moment
  estimates are in the checkpoint. Counterexample: at step 2 of the run \<open>cfg0\<close>, the
  states \<open>st_a\<close> and \<open>st_b\<close> have different optimizer states and loss buffers, and the
  code writes the same file for both, path and content.
\<close>

theorem checkpoint_omits_training_state:
  "save_checkpoint cfg0 True st_a
     = Inr (st_a\<lparr>files := [(''exp/checkpoints/0000002_gradvae.pt'', 0)]\<rparr>)
   \<and> save_checkpoint cfg0 True st_b
     = Inr (st_b\<lparr>files := [(''exp/checkpoints/0000002_gradvae.pt'', 0)]\<rparr>)
   \<and> opt_state st_a \<noteq> opt_state st_b
   \<and> step_loss st_a \<noteq> step_loss st_b
   \<and> epoch_loss st_a \<noteq> epoch_loss st_b"
proof -
  have "ckpt_path cfg0 (global_step st_a) = ''exp/checkpoints/0000002_gradvae.pt''"
    "ckpt_path cfg0 (global_step st_b) = ''exp/checkpoints/0000002_gradvae.pt''"
    using ckpt_path_cfg0_2 by (simp_all add: st_a_def st_b_def)
  moreover have "py_mod (global_step st_a) (ckpt_every cfg0) = Inr 0"
    "py_mod (global_step st_b) (ckpt_every cfg0) = Inr 0"
    by (simp_all add: py_mod_def st_a_def st_b_def cfg0_def)
  ultimately show ?thesis
    by (simp add: save_checkpoint_def Let_def) (simp add: st_a_def st_b_def init_state_def)
qed

text \<open>
  Claim C3, amended. The checkpoint written during training is the model's
  \<open>state_dict\<close>, that is the model parameters only, stored under a path made from the
  global step; what is written does not depend on the gradients, the optimizer's state or
  the loss buffers.
\<close>

theorem checkpoint_holds_model_state:
  assumes "save_checkpoint cfg m s = Inr s'"
  shows "files s' = (if m \<and> ckpt_every cfg dvd global_step s \<and> 0 < global_step s
                     then files s @ [(ckpt_path cfg (global_step s), params s)] else files s)
    \<and> save_checkpoint cfg m
         (s\<lparr>grads := g2, opt_state := o2, step_loss := sl2, epoch_loss := el2\<rparr>)
       = Inr (s'\<lparr>grads := g2, opt_state := o2, step_loss := sl2, epoch_loss := el2\<rparr>)"
proof -
  from assms obtain r where r: "py_mod (global_step s) (ckpt_every cfg) = Inr r"
    by (auto simp: save_checkpoint_def bind_res_eq_Inr)
  from assms r have "save_checkpoint cfg m
         (s\<lparr>grads := g2, opt_state := o2, step_loss := sl2, epoch_loss := el2\<rparr>)
       = Inr (s'\<lparr>grads := g2, opt_state := o2, step_loss := sl2, epoch_loss := el2\<rparr>)"
    by (cases "r = 0 \<and> 0 < global_step s"; cases m) (auto simp: save_checkpoint_def Let_def)
  with save_checkpoint_files [OF assms] show ?thesis by simp
qed

theorem checkpoint_holds_model_state_witness:
  "save_checkpoint cfg0 True st_a
     = Inr (st_a\<lparr>files := [(''exp/checkpoints/0000002_gradvae.pt'', params st_a)]\<rparr>)
   \<and> save_checkpoint cfg0 True (st_a\<lparr>grads := None, opt_state := 9, step_loss := [7],
                                       epoch_loss := [7]\<rparr>)
     = Inr (st_a\<lparr>files := [(''exp/checkpoints/0000002_gradvae.pt'', params st_a)],
                 grads := None, opt_state := 9, step_loss := [7], epoch_loss := [7]\<rparr>)"
proof -
  have 1: "save_checkpoint cfg0 True st_a
     = Inr (st_a\<lparr>files := [(''exp/checkpoints/0000002_gradvae.pt'', params st_a)]\<rparr>)"
    using ckpt_path_cfg0_2
    by (simp add: save_checkpoint_def py_mod_def Let_def st_a_def cfg0_def init_state_def)
  from checkpoint_holds_model_state
    [OF 1, where ?g2.0 = None and ?o2.0 = 9 and ?sl2.0 = "[7]" and ?el2.0 = "[7]"] 1
  show ?thesis
    by simp
qed

section \<open>The parameters change in the optimizer's step only\<close>

text \<open>
  Claim C8. In an iteration that completes, \<open>zero_grad\<close> and \<open>backward\<close> leave the
  parameters as they were; after the optimizer's step (state \<open>s0\<close>) the counting, the
  logging of the loss, the saving of the checkpoint, the logging of images, the validation
  and the end of the epoch all leave the parameters of \<open>s0\<close>. Encoding, decoding and the
  loss are functions of the parameters and return no state.
\<close>

theorem params_changed_only_by_opt_step:
  assumes "train_iter T L cfg m vae val_loader b s = Inr s'"
  shows "\<exists>grad z_pred loss s0 s1 s2 s3.
           params (zero_grad s) = params s
         \<and> params (backward L (step_loss_fn T L vae grad) (zero_grad s)) = params s
         \<and> s0 = opt_step L (backward L (step_loss_fn T L vae grad) (zero_grad s))
         \<and> params (count_step loss s0) = params s0
         \<and> log_loss L cfg m (count_step loss s0) = Inr s1 \<and> params s1 = params s0
         \<and> save_checkpoint cfg m s1 = Inr s2 \<and> params s2 = params s0
         \<and> log_images L cfg m grad z_pred s2 = Inr s3 \<and> params s3 = params s0
         \<and> validate T L cfg m vae val_loader s3 = Inr s' \<and> params s' = params s0
         \<and> params (end_epoch L m s') = params s0"
proof -
  from assms obtain grad z_pred loss s0 where
    fb: "forward_backward T L vae (fst b) (snd b) s = Inr (grad, z_pred, loss, s0)"
    and as: "after_step T L cfg m vae val_loader grad z_pred loss s0 = Inr s'"
    by (auto simp: train_iter_def bind_res_eq_Inr)
  from as obtain s1 s2 s3 where
    1: "log_loss L cfg m (count_step loss s0) = Inr s1"
    and 2: "save_checkpoint cfg m s1 = Inr s2"
    and 3: "log_images L cfg m grad z_pred s2 = Inr s3"
    and 4: "validate T L cfg m vae val_loader s3 = Inr s'"
    by (auto simp: after_step_def bind_res_eq_Inr)
  have p1: "params s1 = params s0"
    using log_loss_frame [OF 1] by (simp add: count_step_frame)
  have p2: "params s2 = params s0"
    using save_checkpoint_frame [OF 2] p1 by simp
  have p3: "params s3 = params s0"
    using log_images_frame [OF 3] p2 by simp
  have p4: "params s' = params s0"
    using validate_frame [OF 4] p3 by simp
  have z: "params (zero_grad s) = params s"
    by (simp add: zero_grad_def)
  have e: "params (end_epoch L m s') = params s0"
    using p4 by (simp add: end_epoch_frame)
  have c: "params (count_step loss s0) = params s0"
    by (simp add: count_step_frame)
  have bz: "params (backward L (step_loss_fn T L vae grad) (zero_grad s)) = params s"
    by (simp add: backward_zero_grad_frame)
  from forward_backward_result(4) [OF fb] 1 2 3 4 p1 p2 p3 p4 z e c bz show ?thesis
    by blast
qed

theorem params_changed_only_by_opt_step_witness:
  "\<exists>s'. train_iter nat_torch nat_lib cfg0 True vae0 val_loader0 (batch0, 0) (init_state 0 0)
          = Inr s'
        \<and> params s' = 1 \<and> params (end_epoch nat_lib True s') = 1"
proof -
  from train_iter_ok [OF AutoencoderKL_init_ok fixtures_ok, of nat_torch True "init_state 0 0"]
  obtain s' where s': "train_iter nat_torch nat_lib cfg0 True vae0 val_loader0 (batch0, 0)
      (init_state 0 0) = Inr s'"
    by blast
  from params_changed_only_by_opt_step [OF s'] obtain grad s0 where
    "params (backward nat_lib (step_loss_fn nat_torch nat_lib vae0 grad)
        (zero_grad (init_state 0 0))) = params (init_state 0 0 :: (nat, nat, nat) train_state)"
    "s0 = opt_step nat_lib (backward nat_lib (step_loss_fn nat_torch nat_lib vae0 grad)
        (zero_grad (init_state 0 0)))"
    "params s' = params s0" "params (end_epoch nat_lib True s') = params s0"
    by auto
  then have "params s' = 1" "params (end_epoch nat_lib True s') = 1"
    by (simp_all add: opt_step_frame nat_lib_def init_state_def)
  with s' show ?thesis by blast
qed

section \<open>When checkpoints are written\<close>



end
